theory Spec2Isabelle
  imports Complex_Main "HOL-Library.Sublist"
begin

section \<open>Conversation messages and history trimming (routers/agent.py)\<close>

text \<open>
  A conversation message is a Python dict read with \<open>msg.get(...)\<close>; an absent key and
  the value \<open>None\<close> both read as \<open>None\<close>. A tool call carries its invocation id, the
  tool name and the JSON text of its arguments.
\<close>

record tool_call =
  tc_id :: string
  tc_name :: string
  tc_arguments :: string

record message =
  role :: "string option"
  content :: "string option"
  tool_calls :: "tool_call list"
  tool_call_id :: "string option"

text \<open>
  Python's \<open>xs[-n:]\<close>: the start index \<open>-n\<close> is shifted by the length when negative and
  clamped to the list, so \<open>xs[-0:]\<close> is the whole list.
\<close>

definition py_slice_from :: "int \<Rightarrow> 'a list \<Rightarrow> 'a list" where
  "py_slice_from start xs =
     (let len = int (length xs);
          s = (if start < 0 then max (start + len) 0 else min start len)
      in drop (nat s) xs)"

definition is_system :: "message \<Rightarrow> bool" where
  "is_system msg = (role msg = Some ''system'')"

definition trim_conversation_history :: "message list \<Rightarrow> int \<Rightarrow> message list" where
  "trim_conversation_history messages max_messages =
     (if int (length messages) \<le> max_messages then messages
      else
        let system_msgs = filter is_system messages;
            non_system_msgs = filter (\<lambda>msg. \<not> is_system msg) messages;
            trimmed_non_system =
              (if int (length non_system_msgs) > max_messages
               then py_slice_from (- max_messages) non_system_msgs
               else non_system_msgs)
        in system_msgs @ trimmed_non_system)"

section \<open>Numbers read from free text (services/restaurant\_service.py, models.py)\<close>

text \<open>
  Fields of catalog documents are loosely typed: a price or a fee may be stored as a
  number, as text, or be absent. \<open>py_value\<close> keeps the cases the parsers tell apart with
  \<open>isinstance\<close>; Python's \<open>bool\<close> is a subclass of \<open>int\<close>. Python floats are modelled by
  exact real numbers throughout.
\<close>

datatype py_value =
    PNone
  | PBool bool
  | PInt int
  | PFloat real
  | PStr string
  | POther

definition is_digit :: "char \<Rightarrow> bool" where
  "is_digit c = (c \<in> set ''0123456789'')"

definition is_space :: "char \<Rightarrow> bool" where
  "is_space c = (c \<in> set [CHR '' '', CHR 0x09, CHR 0x0A, CHR 0x0B, CHR 0x0C, CHR 0x0D,
                            CHR 0x1C, CHR 0x1D, CHR 0x1E, CHR 0x1F])"

definition digit_val :: "char \<Rightarrow> nat" where
  "digit_val c = of_char c - 48"

text \<open>\<open>int(s)\<close> for a string of decimal digits.\<close>

definition dec_value :: "string \<Rightarrow> nat" where
  "dec_value s = foldl (\<lambda>a c. 10 * a + digit_val c) 0 s"

text \<open>
  \<open>re.search(r'(\d+\.?\d*)', s)\<close>: the leftmost match starts at the first digit of \<open>s\<close>;
  each quantifier is greedy, so the match is the whole run of digits, a following dot
  if there is one, and the run of digits after the dot. The result is the integer part
  and, when the dot was matched, the fraction digits.
\<close>

definition match_number :: "string \<Rightarrow> string \<times> string option" where
  "match_number t =
     (let ip = takeWhile is_digit t;
          r = dropWhile is_digit t
      in case r of
           c # r' \<Rightarrow>
             (if c = CHR ''.'' then (ip, Some (takeWhile is_digit r')) else (ip, None))
         | [] \<Rightarrow> (ip, None))"

definition search_number :: "string \<Rightarrow> (string \<times> string option) option" where
  "search_number s =
     (let t = dropWhile (\<lambda>c. \<not> is_digit c) s
      in if t = [] then None else Some (match_number t))"

text \<open>\<open>float(match.group(1))\<close> on such a match.\<close>

definition float_of_match :: "string \<times> string option \<Rightarrow> real" where
  "float_of_match m =
     (case m of
        (ip, None) \<Rightarrow> of_nat (dec_value ip)
      | (ip, Some fp) \<Rightarrow> of_nat (dec_value ip) + of_nat (dec_value fp) / 10 ^ length fp)"

text \<open>
  In \<open>parse_delivery_fee\<close> the pattern is \<open>\$?(\d+\.?\d*)\<close>: the optional dollar sign
  lets a match start one character earlier, and leaves group 1 as it is.
\<close>

definition parse_delivery_fee :: "py_value \<Rightarrow> real" where
  "parse_delivery_fee v =
     (case v of
        PNone \<Rightarrow> 0
      | PBool b \<Rightarrow> (if b then 1 else 0)
      | PInt i \<Rightarrow> of_int i
      | PFloat x \<Rightarrow> x
      | PStr s \<Rightarrow> (case search_number s of Some m \<Rightarrow> float_of_match m | None \<Rightarrow> 0)
      | POther \<Rightarrow> 0)"

definition parse_price :: "py_value \<Rightarrow> real" where
  "parse_price v =
     (case v of
        PNone \<Rightarrow> 0
      | PBool b \<Rightarrow> (if b then 1 else 0)
      | PInt i \<Rightarrow> of_int i
      | PFloat x \<Rightarrow> x
      | PStr s \<Rightarrow> (case search_number s of Some m \<Rightarrow> float_of_match m | None \<Rightarrow> 0)
      | POther \<Rightarrow> 0)"

subsection \<open>The field validators of \<open>RestaurantResponse\<close>\<close>



text \<open>\<open>v.strip('()')\<close> and \<open>str.lower\<close> on ASCII text.\<close>

definition strip_parens :: "string \<Rightarrow> string" where
  "strip_parens s =
     rev (dropWhile (\<lambda>c. c \<in> set ''()'') (rev (dropWhile (\<lambda>c. c \<in> set ''()'') s)))"

definition lower_char :: "char \<Rightarrow> char" where
  "lower_char c =
     (case map_of (zip ''ABCDEFGHIJKLMNOPQRSTUVWXYZ'' ''abcdefghijklmnopqrstuvwxyz'') c of
        Some l \<Rightarrow> l
      | None \<Rightarrow> c)"

definition lower :: "string \<Rightarrow> string" where
  "lower s = map lower_char s"

text \<open>\<open>re.search(r'(\d+)', s)\<close>: the first run of digits.\<close>

definition search_digits :: "string \<Rightarrow> string option" where
  "search_digits s =
     (let t = dropWhile (\<lambda>c. \<not> is_digit c) s
      in if t = [] then None else Some (takeWhile is_digit t))"



section \<open>The catalog store (database.py)\<close>

text \<open>
  Exceptions are values. \<open>HTTPException\<close> carries its status code and detail; the other
  constructors carry the text that \<open>str(e)\<close> gives.
\<close>

datatype exn =
    HTTPException nat string
  | ValueError string
  | TypeError string
  | AttributeError string
  | OtherException string

text \<open>
  The fields of a restaurant and of a menu item that the pricing operations read. The
  identifier is the text \<open>str(ObjectId)\<close> yields: 24 lower-case hexadecimal digits.
  Names and descriptions are text or absent, as the response models require; the
  delivery fee and the price are loosely typed.
\<close>

record restaurant =
  rest_id :: string
  rest_name :: "string option"
  rest_delivery_fee :: py_value

record item =
  item_id :: string
  item_name :: "string option"
  item_description :: "string option"
  item_price :: py_value

text \<open>\<open>CartItemDetail\<close> and \<open>ReceiptItemDetail\<close> have the same fields.\<close>

record item_detail =
  det_item_id :: string
  det_name :: "string option"
  det_description :: "string option"
  det_price :: real
  det_quantity :: int
  det_subtotal :: real

record receipt =
  receipt_id :: string
  rc_restaurant_id :: string
  rc_restaurant_name :: "string option"
  rc_items :: "item_detail list"
  rc_subtotal :: real
  rc_delivery_fee :: "real option"
  rc_tax :: real
  rc_total :: real
  rc_delivery_id :: "string option"
  rc_customer_name :: "string option"
  rc_customer_email :: "string option"
  rc_customer_phone :: "string option"
  rc_delivery_address :: "string option"
  rc_created_at :: string

text \<open>The three collections, each in store order.\<close>

record db =
  db_restaurants :: "restaurant list"
  db_items :: "item list"
  db_receipts :: "receipt list"

text \<open>
  \<open>ObjectId(s)\<close> accepts a text of 24 hexadecimal digits in either case and raises on
  anything else; \<open>str\<close> of the result is lower case.
\<close>

definition is_hex :: "char \<Rightarrow> bool" where
  "is_hex c = (c \<in> set ''0123456789abcdefABCDEF'')"

definition object_id :: "string \<Rightarrow> string option" where
  "object_id s = (if length s = 24 \<and> list_all is_hex s then Some (lower s) else None)"

definition get_restaurant_by_id :: "db \<Rightarrow> string \<Rightarrow> restaurant option" where
  "get_restaurant_by_id d restaurant_id =
     (case object_id restaurant_id of
        None \<Rightarrow> None
      | Some oid \<Rightarrow> find (\<lambda>r. rest_id r = oid) (db_restaurants d))"

text \<open>
  \<open>get_items_by_ids\<close>: one malformed identifier makes the whole lookup return the empty
  list; otherwise the \<open>$in\<close> query returns every stored item whose identifier is among
  the requested ones, once.
\<close>

definition get_items_by_ids :: "db \<Rightarrow> string list \<Rightarrow> item list" where
  "get_items_by_ids d item_ids =
     (case those (map object_id item_ids) of
        None \<Rightarrow> []
      | Some object_ids \<Rightarrow> filter (\<lambda>i. item_id i \<in> set object_ids) (db_items d))"





section \<open>Carts, estimates and receipts (services/restaurant\_service.py)\<close>

record cart_item =
  ci_item_id :: string
  ci_quantity :: int

text \<open>
  \<open>BuildCartRequest\<close> and \<open>CostEstimateRequest\<close> have the same fields, and
  \<open>CreateReceiptRequest\<close> has them too; the cart and the estimate read only these.
\<close>

record order_request =
  req_restaurant_id :: string
  req_items :: "cart_item list"

record receipt_request = order_request +
  req_delivery_id :: "string option"
  req_customer_name :: "string option"
  req_customer_email :: "string option"
  req_customer_phone :: "string option"
  req_delivery_address :: "string option"

record cart_response =
  cart_restaurant_id :: string
  cart_restaurant_name :: "string option"
  cart_items :: "item_detail list"
  cart_subtotal :: real
  cart_delivery_fee :: "real option"
  cart_total :: real

record cost_estimate_response =
  est_restaurant_id :: string
  est_restaurant_name :: "string option"
  est_subtotal :: real
  est_delivery_fee :: "real option"
  est_estimated_total :: real
  est_estimated_tax :: real

record receipt_response = receipt +
  rc_mongo_id :: string

text \<open>
  \<open>round(x, 2)\<close>: to the nearest multiple of one hundredth, a tie going to the even
  neighbour.
\<close>

definition round_half_even :: "real \<Rightarrow> int" where
  "round_half_even x =
     (let f = \<lfloor>x\<rfloor>; d = x - of_int f
      in if d < 1 / 2 then f
         else if 1 / 2 < d then f + 1
         else if even f then f else f + 1)"

definition py_round2 :: "real \<Rightarrow> real" where
  "py_round2 x = of_int (round_half_even (x * 100)) / 100"

definition tax_rate :: real where
  "tax_rate = 85 / 1000"

text \<open>
  \<open>items_map = {item['_id']: item for item in items_data}\<close>: a later document replaces
  an earlier one under the same key.
\<close>

definition items_map :: "item list \<Rightarrow> string \<rightharpoonup> item" where
  "items_map items_data = map_of (rev (map (\<lambda>i. (item_id i, i)) items_data))"

definition item_not_found :: "string \<Rightarrow> exn" where
  "item_not_found iid = HTTPException 400 (''Item '' @ iid @ '' not found'')"

text \<open>The loop of \<open>build_cart\<close> and of \<open>create_receipt\<close> over the requested items.\<close>

fun details_loop ::
  "(string \<rightharpoonup> item) \<Rightarrow> cart_item list \<Rightarrow> item_detail list \<Rightarrow> real \<Rightarrow>
   exn + (item_detail list \<times> real)" where
  "details_loop m [] details subtotal = Inr (details, subtotal)"
| "details_loop m (ci # lines) details subtotal =
     (case m (ci_item_id ci) of
        None \<Rightarrow> Inl (item_not_found (ci_item_id ci))
      | Some item_data \<Rightarrow>
          (let price = parse_price (item_price item_data);
               item_subtotal = price * of_int (ci_quantity ci)
           in details_loop m lines
                (details @
                 [\<lparr>det_item_id = ci_item_id ci, det_name = item_name item_data,
                   det_description = item_description item_data, det_price = price,
                   det_quantity = ci_quantity ci, det_subtotal = item_subtotal\<rparr>])
                (subtotal + item_subtotal)))"

text \<open>The loop of \<open>compute_cost_estimate\<close>.\<close>

fun subtotal_loop :: "(string \<rightharpoonup> item) \<Rightarrow> cart_item list \<Rightarrow> real \<Rightarrow> exn + real" where
  "subtotal_loop m [] subtotal = Inr subtotal"
| "subtotal_loop m (ci # lines) subtotal =
     (case m (ci_item_id ci) of
        None \<Rightarrow> Inl (item_not_found (ci_item_id ci))
      | Some item_data \<Rightarrow>
          subtotal_loop m lines
            (subtotal + parse_price (item_price item_data) * of_int (ci_quantity ci)))"

definition build_cart :: "db \<Rightarrow> 'a order_request_scheme \<Rightarrow> exn + cart_response" where
  "build_cart d request =
     (case get_restaurant_by_id d (req_restaurant_id request) of
        None \<Rightarrow> Inl (HTTPException 404 ''Restaurant not found'')
      | Some restaurant \<Rightarrow>
          (let item_ids = map ci_item_id (req_items request);
               items_data = get_items_by_ids d item_ids
           in if length items_data \<noteq> length item_ids
              then Inl (HTTPException 400 ''One or more items not found or invalid'')
              else
                (case details_loop (items_map items_data) (req_items request) [] 0 of
                   Inl e \<Rightarrow> Inl e
                 | Inr (details, subtotal) \<Rightarrow>
                     (let delivery_fee = parse_delivery_fee (rest_delivery_fee restaurant);
                          total = subtotal + delivery_fee
                      in Inr \<lparr>cart_restaurant_id = req_restaurant_id request,
                               cart_restaurant_name = rest_name restaurant,
                               cart_items = details,
                               cart_subtotal = py_round2 subtotal,
                               cart_delivery_fee =
                                 (if delivery_fee \<noteq> 0 then Some (py_round2 delivery_fee)
                                  else None),
                               cart_total = py_round2 total\<rparr>))))"

definition compute_cost_estimate ::
  "db \<Rightarrow> 'a order_request_scheme \<Rightarrow> exn + cost_estimate_response" where
  "compute_cost_estimate d request =
     (case get_restaurant_by_id d (req_restaurant_id request) of
        None \<Rightarrow> Inl (HTTPException 404 ''Restaurant not found'')
      | Some restaurant \<Rightarrow>
          (let item_ids = map ci_item_id (req_items request);
               items_data = get_items_by_ids d item_ids
           in if length items_data \<noteq> length item_ids
              then Inl (HTTPException 400 ''One or more items not found or invalid'')
              else
                (case subtotal_loop (items_map items_data) (req_items request) 0 of
                   Inl e \<Rightarrow> Inl e
                 | Inr subtotal \<Rightarrow>
                     (let delivery_fee = parse_delivery_fee (rest_delivery_fee restaurant);
                          estimated_tax = subtotal * tax_rate;
                          estimated_total = subtotal + delivery_fee + estimated_tax
                      in Inr \<lparr>est_restaurant_id = req_restaurant_id request,
                               est_restaurant_name = rest_name restaurant,
                               est_subtotal = py_round2 subtotal,
                               est_delivery_fee =
                                 (if delivery_fee \<noteq> 0 then Some (py_round2 delivery_fee)
                                  else None),
                               est_estimated_total = py_round2 estimated_total,
                               est_estimated_tax = py_round2 estimated_tax\<rparr>))))"

subsection \<open>Receipt identifiers\<close>

text \<open>\<open>str(n)\<close> for a natural number and \<open>zfill\<close> for unsigned text.\<close>

definition digit_char :: "nat \<Rightarrow> char" where
  "digit_char k = ''0123456789'' ! k"

fun str_nat :: "nat \<Rightarrow> string" where
  "str_nat n = (if n < 10 then [digit_char n] else str_nat (n div 10) @ [digit_char (n mod 10)])"

declare str_nat.simps [simp del]

definition zfill :: "nat \<Rightarrow> string \<Rightarrow> string" where
  "zfill width s = replicate (width - length s) CHR ''0'' @ s"

text \<open>The calendar date of \<open>datetime.utcnow()\<close> and its \<open>strftime("%Y%m%d")\<close>.\<close>

record utc_date =
  year :: nat
  month :: nat
  day :: nat

definition strftime_Ymd :: "utc_date \<Rightarrow> string" where
  "strftime_Ymd t = zfill 4 (str_nat (year t)) @ zfill 2 (str_nat (month t)) @
                    zfill 2 (str_nat (day t))"

definition receipt_prefix :: "string \<Rightarrow> string" where
  "receipt_prefix date_str = ''RCP-'' @ date_str @ ''-''"

text \<open>
  \<open>count_documents\<close> with the pattern \<open>^RCP-<date>-\<close>: the stored receipts whose
  identifier starts with that text.
\<close>

definition generate_receipt_id :: "db \<Rightarrow> utc_date \<Rightarrow> string" where
  "generate_receipt_id d today =
     (let date_str = strftime_Ymd today;
          today_receipts =
            length (filter (\<lambda>r. prefix (receipt_prefix date_str) (receipt_id r)) (db_receipts d));
          sequence = zfill 3 (str_nat (today_receipts + 1))
      in receipt_prefix date_str @ sequence)"

text \<open>\<open>db_service.create_receipt\<close>: \<open>insert_one\<close> appends the document.\<close>

definition db_create_receipt :: "db \<Rightarrow> receipt \<Rightarrow> db" where
  "db_create_receipt d receipt_data = d\<lparr>db_receipts := db_receipts d @ [receipt_data]\<rparr>"

text \<open>
  \<open>create_receipt\<close> reads the clock twice (the date for the identifier, the timestamp
  for \<open>created_at\<close>) and receives the identifier the store assigns to the new document.
  It returns its result together with the store.
\<close>

definition create_receipt ::
  "db \<Rightarrow> utc_date \<Rightarrow> string \<Rightarrow> string \<Rightarrow> receipt_request \<Rightarrow> (exn + receipt_response) \<times> db" where
  "create_receipt d today created_at inserted_id request =
     (case get_restaurant_by_id d (req_restaurant_id request) of
        None \<Rightarrow> (Inl (HTTPException 404 ''Restaurant not found''), d)
      | Some restaurant \<Rightarrow>
          (let item_ids = map ci_item_id (req_items request);
               items_data = get_items_by_ids d item_ids
           in if length items_data \<noteq> length item_ids
              then (Inl (HTTPException 400 ''One or more items not found or invalid''), d)
              else
                (case details_loop (items_map items_data) (req_items request) [] 0 of
                   Inl e \<Rightarrow> (Inl e, d)
                 | Inr (receipt_items, subtotal) \<Rightarrow>
                     (let delivery_fee = parse_delivery_fee (rest_delivery_fee restaurant);
                          tax = subtotal * tax_rate;
                          total = subtotal + delivery_fee + tax;
                          rid = generate_receipt_id d today;
                          receipt_data =
                            \<lparr>receipt_id = rid,
                             rc_restaurant_id = req_restaurant_id request,
                             rc_restaurant_name = rest_name restaurant,
                             rc_items = receipt_items,
                             rc_subtotal = py_round2 subtotal,
                             rc_delivery_fee =
                               (if delivery_fee \<noteq> 0 then Some (py_round2 delivery_fee)
                                else None),
                             rc_tax = py_round2 tax,
                             rc_total = py_round2 total,
                             rc_delivery_id = req_delivery_id request,
                             rc_customer_name = req_customer_name request,
                             rc_customer_email = req_customer_email request,
                             rc_customer_phone = req_customer_phone request,
                             rc_delivery_address = req_delivery_address request,
                             rc_created_at = created_at @ ''Z''\<rparr>
                      in (Inr \<lparr>receipt_id = rid,
                                rc_restaurant_id = req_restaurant_id request,
                                rc_restaurant_name = rest_name restaurant,
                                rc_items = receipt_items,
                                rc_subtotal = py_round2 subtotal,
                                rc_delivery_fee =
                                  (if delivery_fee \<noteq> 0 then Some (py_round2 delivery_fee)
                                   else None),
                                rc_tax = py_round2 tax,
                                rc_total = py_round2 total,
                                rc_delivery_id = req_delivery_id request,
                                rc_customer_name = req_customer_name request,
                                rc_customer_email = req_customer_email request,
                                rc_customer_phone = req_customer_phone request,
                                rc_delivery_address = req_delivery_address request,
                                rc_created_at = rc_created_at receipt_data,
                                rc_mongo_id = inserted_id\<rparr>,
                          db_create_receipt d receipt_data)))))"

text \<open>
  A sequence of receipt creations, each with its own clock readings and request, run
  one after the other on the store. The result lists, for every creation that
  succeeded, the date text of that creation and the receipt identifier it returned.
\<close>

record creation =
  cr_today :: utc_date
  cr_created_at :: string
  cr_inserted_id :: string
  cr_request :: receipt_request

fun run_creations :: "db \<Rightarrow> creation list \<Rightarrow> (string \<times> string) list" where
  "run_creations d [] = []"
| "run_creations d (c # creations) =
     (case create_receipt d (cr_today c) (cr_created_at c) (cr_inserted_id c) (cr_request c) of
        (Inr r, d') \<Rightarrow> (strftime_Ymd (cr_today c), receipt_id r) # run_creations d' creations
      | (Inl e, d') \<Rightarrow> run_creations d' creations)"

text \<open>The number of stored receipts that the pattern for a date text matches.\<close>

definition day_count :: "db \<Rightarrow> string \<Rightarrow> nat" where
  "day_count d s = length (filter (\<lambda>r. prefix (receipt_prefix s) (receipt_id r)) (db_receipts d))"

text \<open>
  The place of a creation among the successful creations of its day: how many entries
  up to and including position \<open>k\<close> carry the date text of entry \<open>k\<close>.
\<close>

definition day_rank :: "(string \<times> string) list \<Rightarrow> nat \<Rightarrow> nat" where
  "day_rank out k = length (filter (\<lambda>p. fst p = fst (out ! k)) (take (Suc k) out))"

text \<open>
  The words of the specification, for comparison with the code: the price of an item
  is the parsed price of the catalog entry with that identifier, and the subtotal of
  an order is the sum of price times quantity over its lines.
\<close>

definition catalog_price :: "db \<Rightarrow> string \<Rightarrow> real" where
  "catalog_price d iid =
     (case find (\<lambda>i. item_id i = iid) (db_items d) of
        Some it \<Rightarrow> parse_price (item_price it)
      | None \<Rightarrow> 0)"

definition order_subtotal :: "db \<Rightarrow> cart_item list \<Rightarrow> real" where
  "order_subtotal d lines =
     sum_list (map (\<lambda>ci. catalog_price d (ci_item_id ci) * of_int (ci_quantity ci)) lines)"

text \<open>An identifier is absent from the catalog when no stored item carries it.\<close>

definition absent_from_catalog :: "db \<Rightarrow> string \<Rightarrow> bool" where
  "absent_from_catalog d iid =
     (case object_id iid of
        None \<Rightarrow> True
      | Some oid \<Rightarrow> oid \<notin> set (map item_id (db_items d)))"

section \<open>Tool dispatch (routers/agent.py)\<close>

text \<open>
  Tool arguments and tool results are JSON values; a dict is a list of key-value pairs
  in insertion order.
\<close>

datatype json =
    JNull
  | JBool bool
  | JInt int
  | JNum real
  | JStr string
  | JArr "json list"
  | JObj "(string \<times> json) list"

text \<open>Python truth: \<open>not x\<close> holds for \<open>None\<close>, \<open>False\<close>, zero and empty containers.\<close>

fun truthy :: "json \<Rightarrow> bool" where
  "truthy JNull = False"
| "truthy (JBool b) = b"
| "truthy (JInt i) = (i \<noteq> 0)"
| "truthy (JNum x) = (x \<noteq> 0)"
| "truthy (JStr s) = (s \<noteq> [])"
| "truthy (JArr xs) = (xs \<noteq> [])"
| "truthy (JObj kvs) = (kvs \<noteq> [])"

text \<open>\<open>d.get(key, default)\<close>: only a dict has the method.\<close>

fun py_get :: "json \<Rightarrow> string \<Rightarrow> json \<Rightarrow> exn + json" where
  "py_get (JObj kvs) k dflt = Inr (case map_of kvs k of Some v \<Rightarrow> v | None \<Rightarrow> dflt)"
| "py_get v k dflt = Inl (AttributeError ''object has no attribute get'')"

text \<open>
  \<open>for item in items\<close>: a list yields its elements, a dict its keys, a text its
  characters; other values are not iterable.
\<close>

fun py_iter :: "json \<Rightarrow> exn + json list" where
  "py_iter (JArr xs) = Inr xs"
| "py_iter (JObj kvs) = Inr (map (\<lambda>kv. JStr (fst kv)) kvs)"
| "py_iter (JStr s) = Inr (map (\<lambda>c. JStr [c]) s)"
| "py_iter v = Inl (TypeError ''object is not iterable'')"

text \<open>
  \<open>min(x, 100)\<close> returns \<open>x\<close> unless \<open>100 < x\<close>; values that cannot be compared with an
  \<open>int\<close> raise.
\<close>

fun py_min_100 :: "json \<Rightarrow> exn + json" where
  "py_min_100 (JInt n) = Inr (if 100 < n then JInt 100 else JInt n)"
| "py_min_100 (JNum x) = Inr (if 100 < x then JInt 100 else JNum x)"
| "py_min_100 (JBool b) = Inr (JBool b)"
| "py_min_100 v = Inl (TypeError ''< not supported between these instances'')"

text \<open>\<open>str(e)\<close>; for \<open>HTTPException\<close> as Starlette renders it.\<close>

fun exn_str :: "exn \<Rightarrow> string" where
  "exn_str (HTTPException status detail) = str_nat status @ '': '' @ detail"
| "exn_str (ValueError m) = m"
| "exn_str (TypeError m) = m"
| "exn_str (AttributeError m) = m"
| "exn_str (OtherException m) = m"

subsection \<open>Computations that read and change the outside world\<close>

text \<open>
  The operations behind the tools read the catalog, write receipts and call the
  delivery provider. A computation takes the state of that world and returns either
  an exception or a value, together with the new state.
\<close>

type_synonym ('w, 'a) io = "'w \<Rightarrow> (exn + 'a) \<times> 'w"

definition io_return :: "'a \<Rightarrow> ('w, 'a) io" where
  "io_return x = (\<lambda>w. (Inr x, w))"

definition io_of :: "exn + 'a \<Rightarrow> ('w, 'a) io" where
  "io_of r = (\<lambda>w. (r, w))"

definition io_bind :: "('w, 'a) io \<Rightarrow> ('a \<Rightarrow> ('w, 'b) io) \<Rightarrow> ('w, 'b) io" where
  "io_bind m f = (\<lambda>w. case m w of (Inl e, w') \<Rightarrow> (Inl e, w') | (Inr x, w') \<Rightarrow> f x w')"

text \<open>\<open>try: m except ... as e: h e\<close>\<close>

definition io_catch :: "('w, 'a) io \<Rightarrow> (exn \<Rightarrow> ('w, 'a) io) \<Rightarrow> ('w, 'a) io" where
  "io_catch m h = (\<lambda>w. case m w of (Inl e, w') \<Rightarrow> h e w' | (Inr x, w') \<Rightarrow> (Inr x, w'))"

text \<open>
  The results of \<open>restaurant_service.list_restaurants\<close> and
  \<open>restaurant_service.get_restaurant_menu_by_name\<close>: dicts with these keys.
\<close>

record restaurant_listing =
  lst_restaurants :: "(string \<times> json) list list"
  lst_total :: int
  lst_limit :: json
  lst_skip :: json

record menu =
  menu_restaurant_id :: string
  menu_restaurant_name :: json
  menu_items :: "json list"
  menu_total_items :: int

text \<open>
  The operations the dispatcher calls, each with the arguments the dispatcher passes.
  \<open>op_build_cart\<close>, \<open>op_compute_cost_estimate\<close> and \<open>op_create_receipt\<close> stand for the
  construction of the request model from the resolved items followed by the service
  call; \<open>op_validate_delivery_request\<close> for the construction of
  \<open>DoorDashCreateDeliveryRequest\<close> from the arguments. Any of them may raise.
\<close>

record 'w services =
  op_list_restaurants :: "json \<Rightarrow> json \<Rightarrow> ('w, restaurant_listing) io"
  op_get_restaurant_menu_by_name :: "json \<Rightarrow> ('w, menu) io"
  op_resolve_restaurant_name_to_id :: "json \<Rightarrow> ('w, string) io"
  op_resolve_item_name_to_id :: "json \<Rightarrow> json \<Rightarrow> ('w, string) io"
  op_get_menu_item :: "string \<Rightarrow> ('w, json) io"
  op_build_cart :: "string \<Rightarrow> (string \<times> json) list \<Rightarrow> ('w, json) io"
  op_compute_cost_estimate :: "string \<Rightarrow> (string \<times> json) list \<Rightarrow> ('w, json) io"
  op_create_receipt ::
    "string \<Rightarrow> (string \<times> json) list \<Rightarrow> (string \<times> json) list \<Rightarrow> ('w, json) io"
  op_validate_delivery_request :: "json \<Rightarrow> exn + json"
  op_create_delivery :: "json \<Rightarrow> ('w, json) io"
  op_track_delivery :: "json \<Rightarrow> ('w, json) io"

definition error_result :: "string \<Rightarrow> json" where
  "error_result msg = JObj [(''error'', JStr msg)]"

definition has_key :: "string \<Rightarrow> json \<Rightarrow> bool" where
  "has_key k v = (case v of JObj kvs \<Rightarrow> map_of kvs k \<noteq> None | _ \<Rightarrow> False)"

subsection \<open>The branches of \<open>execute_function_call\<close>\<close>

definition minimal_restaurant :: "(string \<times> json) list \<Rightarrow> json" where
  "minimal_restaurant r =
     JObj [(''_id'', case map_of r ''_id'' of Some v \<Rightarrow> v | None \<Rightarrow> JNull),
           (''name'', case map_of r ''name'' of Some v \<Rightarrow> v | None \<Rightarrow> JNull),
           (''description'', case map_of r ''description'' of Some v \<Rightarrow> v | None \<Rightarrow> JNull),
           (''store_id'', case map_of r ''store_id'' of Some v \<Rightarrow> v | None \<Rightarrow> JNull)]"

definition call_list_restaurants :: "('w, 'z) services_scheme \<Rightarrow> json \<Rightarrow> ('w, json) io" where
  "call_list_restaurants svc arguments =
     io_bind (io_of (py_get arguments ''limit'' (JInt 100))) (\<lambda>limit0.
     io_bind (io_of (py_min_100 limit0)) (\<lambda>limit.
     io_bind (io_of (py_get arguments ''skip'' (JInt 0))) (\<lambda>skip.
     io_bind (op_list_restaurants svc limit skip) (\<lambda>result.
       io_return
         (if length (lst_restaurants result) > 20
          then JObj [(''restaurants'', JArr (map minimal_restaurant (lst_restaurants result))),
                     (''total'', JInt (lst_total result)),
                     (''limit'', lst_limit result),
                     (''skip'', lst_skip result),
                     (''truncated'', JBool True),
                     (''note'',
                      JStr (''Showing minimal data (id, name, description) for '' @
                            str_nat (length (lst_restaurants result)) @
                            '' restaurants. Use get_restaurant_menu for full details.''))]
          else JObj [(''restaurants'', JArr (map JObj (lst_restaurants result))),
                     (''total'', JInt (lst_total result)),
                     (''limit'', lst_limit result),
                     (''skip'', lst_skip result)])))))"

definition call_get_restaurant_menu :: "('w, 'z) services_scheme \<Rightarrow> json \<Rightarrow> ('w, json) io" where
  "call_get_restaurant_menu svc arguments =
     io_bind (io_of (py_get arguments ''restaurant_name'' JNull)) (\<lambda>restaurant_name.
       if \<not> truthy restaurant_name then io_return (error_result ''restaurant_name is required'')
       else
         io_bind (op_get_restaurant_menu_by_name svc restaurant_name) (\<lambda>result.
           io_return
             (JObj [(''restaurant_id'', JStr (menu_restaurant_id result)),
                    (''restaurant_name'', menu_restaurant_name result),
                    (''items'',
                     JArr (if length (menu_items result) > 20 then take 20 (menu_items result)
                           else menu_items result)),
                    (''total_items'',
                     JInt (if length (menu_items result) > 20
                           then min (menu_total_items result) 20
                           else menu_total_items result))])))"

definition call_get_menu_item :: "('w, 'z) services_scheme \<Rightarrow> json \<Rightarrow> ('w, json) io" where
  "call_get_menu_item svc arguments =
     io_bind (io_of (py_get arguments ''restaurant_name'' JNull)) (\<lambda>restaurant_name.
     io_bind (io_of (py_get arguments ''item_name'' JNull)) (\<lambda>item_name.
       if \<not> truthy restaurant_name \<or> \<not> truthy item_name
       then io_return (error_result ''restaurant_name and item_name are required'')
       else
         io_catch
           (io_bind (op_resolve_item_name_to_id svc restaurant_name item_name)
              (\<lambda>iid. op_get_menu_item svc iid))
           (\<lambda>e. case e of
                   ValueError m \<Rightarrow> io_return (error_result m)
                 | _ \<Rightarrow> io_of (Inl e))))"

text \<open>
  The loop that resolves item names, written three times in the source with the same
  text. It either returns early with an error result (\<open>Inl\<close>) or yields the resolved
  items (\<open>Inr\<close>).
\<close>

fun resolve_items ::
  "('w, 'z) services_scheme \<Rightarrow> json \<Rightarrow> json list \<Rightarrow> (string \<times> json) list \<Rightarrow>
   ('w, json + (string \<times> json) list) io" where
  "resolve_items svc restaurant_name [] resolved_items = io_return (Inr resolved_items)"
| "resolve_items svc restaurant_name (entry # entries) resolved_items =
     io_bind (io_of (py_get entry ''item_name'' JNull)) (\<lambda>item_name.
     io_bind (io_of (py_get entry ''quantity'' JNull)) (\<lambda>quantity.
       if \<not> truthy item_name \<or> \<not> truthy quantity
       then io_return (Inl (error_result ''Each item must have item_name and quantity''))
       else
         io_bind (op_resolve_item_name_to_id svc restaurant_name item_name) (\<lambda>iid.
           resolve_items svc restaurant_name entries (resolved_items @ [(iid, quantity)]))))"

text \<open>The two handlers that close the inner \<open>try\<close> of the cart, estimate and receipt branches.\<close>

definition invalid_request :: "exn \<Rightarrow> json" where
  "invalid_request e =
     (case e of
        ValueError m \<Rightarrow> error_result m
      | _ \<Rightarrow> error_result (''Invalid request parameters: '' @ exn_str e))"

definition call_build_cart :: "('w, 'z) services_scheme \<Rightarrow> json \<Rightarrow> ('w, json) io" where
  "call_build_cart svc arguments =
     io_bind (io_of (py_get arguments ''restaurant_name'' JNull)) (\<lambda>restaurant_name.
     io_bind (io_of (py_get arguments ''items'' (JArr []))) (\<lambda>entries.
       if \<not> truthy restaurant_name \<or> \<not> truthy entries
       then io_return (error_result ''restaurant_name and items are required'')
       else
         io_catch
           (io_bind (op_resolve_restaurant_name_to_id svc restaurant_name) (\<lambda>restaurant_id.
            io_bind (io_of (py_iter entries)) (\<lambda>entry_list.
            io_bind (resolve_items svc restaurant_name entry_list []) (\<lambda>r.
              case r of
                Inl early \<Rightarrow> io_return early
              | Inr resolved_items \<Rightarrow> op_build_cart svc restaurant_id resolved_items))))
           (\<lambda>e. io_return (invalid_request e))))"

definition call_compute_cost_estimate ::
  "('w, 'z) services_scheme \<Rightarrow> json \<Rightarrow> ('w, json) io" where
  "call_compute_cost_estimate svc arguments =
     io_bind (io_of (py_get arguments ''restaurant_name'' JNull)) (\<lambda>restaurant_name.
     io_bind (io_of (py_get arguments ''items'' (JArr []))) (\<lambda>entries.
       if \<not> truthy restaurant_name \<or> \<not> truthy entries
       then io_return (error_result ''restaurant_name and items are required'')
       else
         io_catch
           (io_bind (op_resolve_restaurant_name_to_id svc restaurant_name) (\<lambda>restaurant_id.
            io_bind (io_of (py_iter entries)) (\<lambda>entry_list.
            io_bind (resolve_items svc restaurant_name entry_list []) (\<lambda>r.
              case r of
                Inl early \<Rightarrow> io_return early
              | Inr resolved_items \<Rightarrow>
                  op_compute_cost_estimate svc restaurant_id resolved_items))))
           (\<lambda>e. io_return (invalid_request e))))"

definition receipt_optional_fields :: "string list" where
  "receipt_optional_fields =
     [''delivery_id'', ''customer_name'', ''customer_email'', ''customer_phone'',
      ''delivery_address'']"

text \<open>The optional receipt fields that are keys of the arguments, in the order of the list.\<close>

definition optional_args :: "json \<Rightarrow> (string \<times> json) list" where
  "optional_args arguments =
     (case arguments of
        JObj kvs \<Rightarrow>
          concat (map (\<lambda>field. case map_of kvs field of Some v \<Rightarrow> [(field, v)] | None \<Rightarrow> [])
                      receipt_optional_fields)
      | _ \<Rightarrow> [])"

definition call_create_receipt :: "('w, 'z) services_scheme \<Rightarrow> json \<Rightarrow> ('w, json) io" where
  "call_create_receipt svc arguments =
     io_bind (io_of (py_get arguments ''restaurant_name'' JNull)) (\<lambda>restaurant_name.
     io_bind (io_of (py_get arguments ''items'' (JArr []))) (\<lambda>entries.
       if \<not> truthy restaurant_name \<or> \<not> truthy entries
       then io_return (error_result ''restaurant_name and items are required'')
       else
         io_catch
           (io_bind (op_resolve_restaurant_name_to_id svc restaurant_name) (\<lambda>restaurant_id.
            io_bind (io_of (py_iter entries)) (\<lambda>entry_list.
            io_bind (resolve_items svc restaurant_name entry_list []) (\<lambda>r.
              case r of
                Inl early \<Rightarrow> io_return early
              | Inr resolved_items \<Rightarrow>
                  op_create_receipt svc restaurant_id resolved_items (optional_args arguments)))))
           (\<lambda>e. io_return (invalid_request e))))"

definition call_create_delivery :: "('w, 'z) services_scheme \<Rightarrow> json \<Rightarrow> ('w, json) io" where
  "call_create_delivery svc arguments =
     (case op_validate_delivery_request svc arguments of
        Inl e \<Rightarrow> io_return (error_result (''Invalid request parameters: '' @ exn_str e))
      | Inr request \<Rightarrow> op_create_delivery svc request)"

definition call_track_delivery :: "('w, 'z) services_scheme \<Rightarrow> json \<Rightarrow> ('w, json) io" where
  "call_track_delivery svc arguments =
     io_bind (io_of (py_get arguments ''external_delivery_id'' JNull)) (\<lambda>external_delivery_id.
       if \<not> truthy external_delivery_id
       then io_return (error_result ''external_delivery_id is required'')
       else op_track_delivery svc external_delivery_id)"


text \<open>The body of the outer \<open>try\<close>.\<close>

definition dispatch :: "('w, 'z) services_scheme \<Rightarrow> string \<Rightarrow> json \<Rightarrow> ('w, json) io" where
  "dispatch svc function_name arguments =
     (if function_name = ''list_restaurants'' then call_list_restaurants svc arguments
      else if function_name = ''get_restaurant_menu'' then call_get_restaurant_menu svc arguments
      else if function_name = ''get_menu_item'' then call_get_menu_item svc arguments
      else if function_name = ''build_cart'' then call_build_cart svc arguments
      else if function_name = ''compute_cost_estimate''
        then call_compute_cost_estimate svc arguments
      else if function_name = ''create_receipt'' then call_create_receipt svc arguments
      else if function_name = ''create_delivery'' then call_create_delivery svc arguments
      else if function_name = ''track_delivery'' then call_track_delivery svc arguments
      else io_return (error_result (''Unknown function: '' @ function_name)))"

text \<open>The two handlers of the outer \<open>try\<close>.\<close>

definition outer_error :: "exn \<Rightarrow> json" where
  "outer_error e =
     (case e of
        HTTPException status detail \<Rightarrow>
          JObj [(''error'', JStr detail), (''error_type'', JStr ''http_exception''),
                (''status_code'', JInt (int status))]
      | _ \<Rightarrow>
          JObj [(''error'', JStr (''Unexpected error: '' @ exn_str e)),
                (''error_type'', JStr ''unexpected_error'')])"

definition execute_function_call ::
  "('w, 'z) services_scheme \<Rightarrow> string \<Rightarrow> json \<Rightarrow> ('w, json) io" where
  "execute_function_call svc function_name arguments =
     io_catch (dispatch svc function_name arguments) (\<lambda>e. io_return (outer_error e))"

text \<open>A world in which every operation behind the tools raises the given exception.\<close>

definition failing_services :: "exn \<Rightarrow> 'w services" where
  "failing_services e =
     \<lparr>op_list_restaurants = (\<lambda>limit skip. io_of (Inl e)),
      op_get_restaurant_menu_by_name = (\<lambda>name. io_of (Inl e)),
      op_resolve_restaurant_name_to_id = (\<lambda>name. io_of (Inl e)),
      op_resolve_item_name_to_id = (\<lambda>restaurant_name item_name. io_of (Inl e)),
      op_get_menu_item = (\<lambda>iid. io_of (Inl e)),
      op_build_cart = (\<lambda>restaurant_id resolved. io_of (Inl e)),
      op_compute_cost_estimate = (\<lambda>restaurant_id resolved. io_of (Inl e)),
      op_create_receipt = (\<lambda>restaurant_id resolved optional. io_of (Inl e)),
      op_validate_delivery_request = (\<lambda>arguments. Inl e),
      op_create_delivery = (\<lambda>request. io_of (Inl e)),
      op_track_delivery = (\<lambda>external_delivery_id. io_of (Inl e))\<rparr>"

section \<open>The orchestration loop (routers/agent.py)\<close>

text \<open>
  What the model provider returns for one completion: the text of the assistant
  message, if any, and the tool calls it requests.
\<close>

record llm_reply =
  reply_content :: "string option"
  reply_tool_calls :: "tool_call list"

text \<open>
  The environment of a chat request: the operations behind the tools, the model
  provider, the JSON library and the process around the handler. \<open>json_loads\<close> gives
  \<open>None\<close> where \<open>json.loads\<close> raises; \<open>str_json\<close> is \<open>str\<close> on values that are not text.
  The system prompt is a constant of the source with characters outside ASCII; its
  text plays no part here.
\<close>

record 'w agent_env = "'w services" +
  llm :: "message list \<Rightarrow> ('w, llm_reply) io"
  json_loads :: "string \<Rightarrow> json option"
  json_dumps :: "json \<Rightarrow> string"
  str_json :: "json \<Rightarrow> string"
  openai_api_key :: "string option"
  generate_thread_id :: "'w \<Rightarrow> string \<times> 'w"
  format_exc :: "exn \<Rightarrow> string"
  system_prompt :: string

definition max_iterations :: nat where
  "max_iterations = 10"

definition truncate_large_content :: "string \<Rightarrow> nat \<Rightarrow> string" where
  "truncate_large_content text max_length =
     (if length text > max_length
      then take max_length text @ [CHR 0x0A, CHR 0x0A] @ ''[Content truncated due to length...]''
      else text)"

text \<open>The copy of the history that is sent to the model.\<close>

definition api_message :: "message \<Rightarrow> message" where
  "api_message msg =
     (if role msg = Some ''tool''
      then \<lparr>role = Some ''tool'', content = content msg, tool_calls = [],
            tool_call_id = tool_call_id msg\<rparr>
      else if role msg = Some ''assistant'' \<and> tool_calls msg \<noteq> []
      then \<lparr>role = Some ''assistant'',
            content = (case content msg of Some (c # cs) \<Rightarrow> Some (c # cs) | _ \<Rightarrow> None),
            tool_calls = tool_calls msg, tool_call_id = None\<rparr>
      else \<lparr>role = role msg, content = content msg, tool_calls = [], tool_call_id = None\<rparr>)"

definition assistant_msg_dict :: "llm_reply \<Rightarrow> message" where
  "assistant_msg_dict reply =
     \<lparr>role = Some ''assistant'', content = reply_content reply,
      tool_calls = reply_tool_calls reply, tool_call_id = None\<rparr>"

text \<open>A tool result with the key \<open>error\<close> is rewrapped before it is shown to the model.\<close>

definition result_for_model :: "json \<Rightarrow> json" where
  "result_for_model function_result =
     (case function_result of
        JObj kvs \<Rightarrow>
          (case map_of kvs ''error'' of
             Some error_msg \<Rightarrow>
               JObj [(''success'', JBool False),
                     (''error'', error_msg),
                     (''error_type'',
                      case map_of kvs ''error_type'' of
                        Some t \<Rightarrow> t
                      | None \<Rightarrow> JStr ''unknown''),
                     (''suggestion'',
                      JStr (''Please try again. If this is the first request after '' @
                            ''inactivity, the server may be waking up (can take 50+ '' @
                            ''seconds on free tier).''))]
           | None \<Rightarrow> function_result)
      | _ \<Rightarrow> function_result)"

text \<open>The loop over the tool calls of one assistant message.\<close>

fun run_tool_calls ::
  "('w, 'z) agent_env_scheme \<Rightarrow> tool_call list \<Rightarrow> message list \<Rightarrow> ('w, message list) io" where
  "run_tool_calls env [] messages = io_return messages"
| "run_tool_calls env (tc # tcs) messages =
     (let function_name = tc_name tc;
          function_args =
            (case json_loads env (tc_arguments tc) of Some a \<Rightarrow> a | None \<Rightarrow> JObj [])
      in io_bind (execute_function_call env function_name function_args) (\<lambda>function_result.
           let result_json = json_dumps env (result_for_model function_result);
               max_length = (if function_name = ''list_restaurants'' then 15000 else 5000);
               truncated_result = truncate_large_content result_json max_length
           in run_tool_calls env tcs
                (messages @
                 [\<lparr>role = Some ''tool'', content = Some truncated_result, tool_calls = [],
                   tool_call_id = Some (tc_id tc)\<rparr>])))"

record loop_result =
  lr_final_response :: string
  lr_messages :: "message list"
  lr_iteration :: nat

text \<open>
  \<open>while iteration < max_iterations\<close>: one completion per pass; a reply without tool
  calls leaves the loop, a reply with tool calls runs them and counts one iteration.
\<close>

function agent_loop ::
  "('w, 'z) agent_env_scheme \<Rightarrow> nat \<Rightarrow> message list \<Rightarrow> ('w, loop_result) io" where
  "agent_loop env iteration messages w =
     (if iteration < max_iterations then
        (case llm env (map api_message messages) w of
           (Inl e, w1) \<Rightarrow> (Inl e, w1)
         | (Inr reply, w1) \<Rightarrow>
             (let messages1 = messages @ [assistant_msg_dict reply]
              in if reply_tool_calls reply = []
                 then (Inr \<lparr>lr_final_response =
                              (case reply_content reply of Some t \<Rightarrow> t | None \<Rightarrow> []),
                            lr_messages = messages1, lr_iteration = iteration\<rparr>, w1)
                 else
                   (case run_tool_calls env (reply_tool_calls reply) messages1 w1 of
                      (Inl e, w2) \<Rightarrow> (Inl e, w2)
                    | (Inr messages2, w2) \<Rightarrow> agent_loop env (iteration + 1) messages2 w2)))
      else (Inr \<lparr>lr_final_response = [], lr_messages = messages, lr_iteration = iteration\<rparr>, w))"
  by pat_completeness auto
termination
  by (relation "measure (\<lambda>(env, iteration, messages, w). max_iterations - iteration)") auto

declare agent_loop.simps [simp del]

definition is_assistant :: "message \<Rightarrow> bool" where
  "is_assistant msg = (role msg = Some ''assistant'')"

subsection \<open>The response when the loop left no text\<close>

definition assistant_text :: "message \<Rightarrow> bool" where
  "assistant_text msg =
     (role msg = Some ''assistant'' \<and> (case content msg of Some (c # cs) \<Rightarrow> True | _ \<Rightarrow> False))"

text \<open>The \<open>error\<close> entry of a tool message whose content parses to a dict that has one.\<close>

definition tool_error :: "('w, 'z) agent_env_scheme \<Rightarrow> message \<Rightarrow> json option" where
  "tool_error env msg =
     (if role msg = Some ''tool''
      then (case content msg of
              None \<Rightarrow> None
            | Some text \<Rightarrow>
                (case json_loads env text of
                   Some (JObj kvs) \<Rightarrow> map_of kvs ''error''
                 | _ \<Rightarrow> None))
      else None)"

definition error_messages :: "('w, 'z) agent_env_scheme \<Rightarrow> message list \<Rightarrow> json list" where
  "error_messages env messages = concat (map (\<lambda>msg. case tool_error env msg of
                                                         Some v \<Rightarrow> [v] | None \<Rightarrow> []) messages)"

definition format_value :: "('w, 'z) agent_env_scheme \<Rightarrow> json \<Rightarrow> string" where
  "format_value env v = (case v of JStr s \<Rightarrow> s | _ \<Rightarrow> str_json env v)"

definition apology :: string where
  "apology = ''I apologize, but I encountered an issue processing your request. '' @
             ''The agent may have exceeded the maximum iterations or encountered an '' @
             ''unexpected error.''"

definition final_answer :: "('w, 'z) agent_env_scheme \<Rightarrow> loop_result \<Rightarrow> string" where
  "final_answer env lr =
     (if lr_final_response lr \<noteq> [] then lr_final_response lr
      else
        (case find assistant_text (rev (lr_messages lr)) of
           Some msg \<Rightarrow> (case content msg of Some t \<Rightarrow> t | None \<Rightarrow> [])
         | None \<Rightarrow>
             (if error_messages env (lr_messages lr) \<noteq> []
              then ''I encountered an error: '' @
                   format_value env (last (error_messages env (lr_messages lr)))
              else apology)))"

subsection \<open>The chat handler\<close>

record agent_request =
  rq_prompt :: string
  rq_thread_id :: "string option"

record agent_response =
  rs_response :: string
  rs_thread_id :: string

text \<open>
  \<open>conversation_threads\<close> is a process-wide dict from thread identifiers to histories;
  the handler takes it together with the world and returns both.
\<close>

definition agent_chat ::
  "('w, 'z) agent_env_scheme \<Rightarrow> agent_request \<Rightarrow> (string \<rightharpoonup> message list) \<times> 'w \<Rightarrow>
   (exn + agent_response) \<times> (string \<rightharpoonup> message list) \<times> 'w" where
  "agent_chat env request state =
     (let threads = fst state; w = snd state
      in case openai_api_key env of
           None \<Rightarrow>
             (Inl (HTTPException 500
                (''OPEN_AI_API_KEY not found in environment variables. '' @
                 ''Please check your .env file.'')), threads, w)
         | Some [] \<Rightarrow>
             (Inl (HTTPException 500
                (''OPEN_AI_API_KEY not found in environment variables. '' @
                 ''Please check your .env file.'')), threads, w)
         | Some (k # ks) \<Rightarrow>
             (let (thread_id, w0) =
                    (case rq_thread_id request of
                       Some (c # cs) \<Rightarrow> (c # cs, w)
                     | _ \<Rightarrow> generate_thread_id env w);
                  stored = (case threads thread_id of Some h \<Rightarrow> h | None \<Rightarrow> []);
                  conversation_history =
                    trim_conversation_history stored 20 @
                    [\<lparr>role = Some ''user'', content = Some (rq_prompt request),
                      tool_calls = [], tool_call_id = None\<rparr>];
                  threads1 = threads(thread_id \<mapsto> conversation_history);
                  messages =
                    (if length conversation_history = 1
                     then [\<lparr>role = Some ''system'', content = Some (system_prompt env),
                            tool_calls = [], tool_call_id = None\<rparr>]
                     else []) @ conversation_history
              in case agent_loop env 0 messages w0 of
                   (Inl e, w1) \<Rightarrow>
                     (Inl (case e of
                             HTTPException status detail \<Rightarrow> e
                           | _ \<Rightarrow>
                               HTTPException 500
                                 (''Error communicating with OpenAI API: '' @ exn_str e @
                                  [CHR 0x0A] @ format_exc env e)),
                      threads1, w1)
                 | (Inr lr, w1) \<Rightarrow>
                     (let updated_history = filter (\<lambda>msg. \<not> is_system msg) (lr_messages lr)
                      in (Inr \<lparr>rs_response = final_answer env lr, rs_thread_id = thread_id\<rparr>,
                          threads1(thread_id \<mapsto> trim_conversation_history updated_history 20),
                          w1))))"

subsection \<open>A conversation that never leaves the tools\<close>

text \<open>
  An environment for a concrete run: every operation behind the tools fails with
  \<open>404 Restaurant not found\<close>, and the model answers every completion with the same
  request for the menu of a restaurant, without text. The JSON library is described
  at the two texts that occur in this run: the arguments of the tool call, and the
  serialised error result, which \<open>json.loads\<close> maps back to the dict it came from.
\<close>

definition menu_call :: tool_call where
  "menu_call =
     \<lparr>tc_id = ''call_1'', tc_name = ''get_restaurant_menu'',
      tc_arguments = ''{\"restaurant_name\": \"Nowhere\"}''\<rparr>"

definition not_found_result :: json where
  "not_found_result = result_for_model (outer_error (HTTPException 404 ''Restaurant not found''))"

definition not_found_text :: string where
  "not_found_text =
     ''{\"success\": false, \"error\": \"Restaurant not found\", '' @
     ''\"error_type\": \"http_exception\", \"suggestion\": \"Please try again. If this is '' @
     ''the first request after inactivity, the server may be waking up (can take 50+ '' @
     ''seconds on free tier).\"}''"

definition menu_prompt :: message where
  "menu_prompt =
     \<lparr>role = Some ''user'', content = Some ''Show me the menu of Nowhere'', tool_calls = [],
      tool_call_id = None\<rparr>"

definition stuck_env :: "unit agent_env" where
  "stuck_env =
     services.extend (failing_services (HTTPException 404 ''Restaurant not found''))
       (agent_env.fields
          (\<lambda>messages. io_return \<lparr>reply_content = None, reply_tool_calls = [menu_call]\<rparr>)
          (\<lambda>text. if text = tc_arguments menu_call
                   then Some (JObj [(''restaurant_name'', JStr ''Nowhere'')])
                   else if text = not_found_text then Some not_found_result
                   else None)
          (\<lambda>v. not_found_text)
          (\<lambda>v. ''?'')
          (Some ''sk-test'')
          (\<lambda>w. (''thread_000000000001'', w))
          (\<lambda>e. ''Traceback'')
          ''You are a helpful assistant for the DaNomNoms food delivery service.'')"

text \<open>The same environment with a model that answers at once, in plain text.\<close>

definition chatty_env :: "unit agent_env" where
  "chatty_env =
     stuck_env\<lparr>llm := \<lambda>messages. io_return
        \<lparr>reply_content = Some ''Which restaurant would you like?'', reply_tool_calls = []\<rparr>\<rparr>"

section \<open>Verified properties: conversation trimming\<close>

lemma filter_drop_compl: "filter P (drop k (filter (\<lambda>x. \<not> P x) xs)) = []"
  by (auto simp: filter_empty_conv dest: in_set_dropD)

lemma filter_drop_same: "filter P (drop k (filter P xs)) = drop k (filter P xs)"
  by (auto simp: filter_id_conv dest: in_set_dropD)

lemma py_slice_from_last: "0 < n \<Longrightarrow> py_slice_from (- int n) xs = drop (length xs - n) xs"
  by (simp add: py_slice_from_def Let_def max_def nat_diff_distrib')

lemma trim_conversation_history_20:
  "trim_conversation_history ms 20 =
     (if length ms \<le> 20 then ms
      else filter is_system ms @
           drop (length (filter (\<lambda>m. \<not> is_system m) ms) - 20)
                (filter (\<lambda>m. \<not> is_system m) ms))"
proof -
  have s: "py_slice_from (- 20) xs = drop (length xs - 20) xs" for xs :: "message list"
    using py_slice_from_last [of 20 xs] by simp
  show ?thesis
    by (simp add: trim_conversation_history_def Let_def s)
qed

text \<open>
  C4 (as amended). With window 20 the history keeps every system message and exactly the
  most recent 20 non-system messages (all of them when there are at most 20); the
  system messages keep their order among themselves and so do the non-system messages.
  A list of at most 20 messages is returned as it is; a longer one is rebuilt with all
  system messages first, followed by the surviving non-system messages.
\<close>

theorem trim_conversation_history_window:
  "filter is_system (trim_conversation_history ms 20) = filter is_system ms \<and>
   filter (\<lambda>m. \<not> is_system m) (trim_conversation_history ms 20) =
     drop (length (filter (\<lambda>m. \<not> is_system m) ms) - 20) (filter (\<lambda>m. \<not> is_system m) ms) \<and>
   length (filter (\<lambda>m. \<not> is_system m) (trim_conversation_history ms 20)) =
     min 20 (length (filter (\<lambda>m. \<not> is_system m) ms)) \<and>
   trim_conversation_history ms 20 =
     (if length ms \<le> 20 then ms
      else filter is_system ms @
           drop (length (filter (\<lambda>m. \<not> is_system m) ms) - 20)
                (filter (\<lambda>m. \<not> is_system m) ms))"
proof -
  let ?ns = "filter (\<lambda>m. \<not> is_system m) ms"
  have le: "length ?ns \<le> length ms" by simp
  have small: "drop (length ?ns - 20) ?ns = ?ns" if "length ms \<le> 20"
  proof -
    from le that have "length ?ns - 20 = 0" by linarith
    then show ?thesis by simp
  qed
  have a: "filter is_system (trim_conversation_history ms 20) = filter is_system ms"
    by (simp add: trim_conversation_history_20 filter_drop_compl)
  have b: "filter (\<lambda>m. \<not> is_system m) (trim_conversation_history ms 20) =
           drop (length ?ns - 20) ?ns"
    by (simp add: trim_conversation_history_20 filter_drop_same small)
  have c: "length (filter (\<lambda>m. \<not> is_system m) (trim_conversation_history ms 20)) =
           min 20 (length ?ns)"
    unfolding b by simp
  show ?thesis
    using a b c trim_conversation_history_20 [of ms] by blast
qed

theorem trim_conversation_history_window_witness:
  "length (filter (\<lambda>m. \<not> is_system m)
     (trim_conversation_history
        (replicate 3 \<lparr>role = Some ''user'', content = Some ''a'', tool_calls = [],
                       tool_call_id = None\<rparr> @
         [\<lparr>role = Some ''system'', content = Some ''s'', tool_calls = [],
           tool_call_id = None\<rparr>] @
         replicate 22 \<lparr>role = Some ''assistant'', content = Some ''b'', tool_calls = [],
                        tool_call_id = None\<rparr>) 20)) = 20 \<and>
   filter is_system
     (trim_conversation_history
        (replicate 3 \<lparr>role = Some ''user'', content = Some ''a'', tool_calls = [],
                       tool_call_id = None\<rparr> @
         [\<lparr>role = Some ''system'', content = Some ''s'', tool_calls = [],
           tool_call_id = None\<rparr>] @
         replicate 22 \<lparr>role = Some ''assistant'', content = Some ''b'', tool_calls = [],
                        tool_call_id = None\<rparr>) 20) =
     [\<lparr>role = Some ''system'', content = Some ''s'', tool_calls = [], tool_call_id = None\<rparr>]"
  using trim_conversation_history_window
    [of "replicate 3 \<lparr>role = Some ''user'', content = Some ''a'', tool_calls = [],
                       tool_call_id = None\<rparr> @
         [\<lparr>role = Some ''system'', content = Some ''s'', tool_calls = [],
           tool_call_id = None\<rparr>] @
         replicate 22 \<lparr>role = Some ''assistant'', content = Some ''b'', tool_calls = [],
                        tool_call_id = None\<rparr>"]
  by (simp add: is_system_def)

text \<open>
  C4 as stated fails: twenty user messages followed by one system message come back
  with the system message moved to the front, so the result is not a subsequence of
  the input.
\<close>

theorem trim_conversation_history_order_counterexample:
  "\<not> subseq
      (trim_conversation_history
         (replicate 20 \<lparr>role = Some ''user'', content = Some ''hi'', tool_calls = [],
                         tool_call_id = None\<rparr> @
          [\<lparr>role = Some ''system'', content = Some ''sys'', tool_calls = [],
            tool_call_id = None\<rparr>]) 20)
      (replicate 20 \<lparr>role = Some ''user'', content = Some ''hi'', tool_calls = [],
                      tool_call_id = None\<rparr> @
       [\<lparr>role = Some ''system'', content = Some ''sys'', tool_calls = [],
         tool_call_id = None\<rparr>])"
proof
  let ?u = "\<lparr>role = Some ''user'', content = Some ''hi'', tool_calls = [],
             tool_call_id = None\<rparr>"
  let ?s = "\<lparr>role = Some ''system'', content = Some ''sys'', tool_calls = [],
             tool_call_id = None\<rparr>"
  assume a: "subseq (trim_conversation_history (replicate 20 ?u @ [?s]) 20)
                    (replicate 20 ?u @ [?s])"
  have t: "trim_conversation_history (replicate 20 ?u @ [?s]) 20 = ?s # replicate 20 ?u"
    by (simp add: trim_conversation_history_20 is_system_def)
  from a have "?s # replicate 20 ?u = replicate 20 ?u @ [?s]"
    unfolding t by (rule subseq_same_length) simp
  then have "hd (?s # replicate 20 ?u) = hd (replicate 20 ?u @ [?s])"
    by simp
  then show False
    by simp
qed

section \<open>Verified properties: numbers read from free text\<close>









lemmas parser_eval_simps =
  search_number_def match_number_def search_digits_def float_of_match_def dec_value_def
  digit_val_def is_digit_def is_space_def strip_parens_def lower_def lower_char_def Let_def




section \<open>Verified properties: restaurant name resolution\<close>

lemma find_first_match:
  "P r \<Longrightarrow> \<forall>x\<in>set pre. \<not> P x \<Longrightarrow> find P (pre @ r # post) = Some r"
  by (induction pre) auto






section \<open>Verified properties: carts, estimates and receipts\<close>

lemma those_map_Some:
  "those (map f xs) = Some ys \<Longrightarrow> length ys = length xs \<and> (\<forall>x\<in>set xs. \<exists>y. f x = Some y \<and> y \<in> set ys)"
proof (induction xs arbitrary: ys)
  case Nil
  then show ?case by simp
next
  case (Cons x xs)
  then show ?case
    by (fastforce split: option.splits)
qed

lemma those_map_None:
  "those (map f xs) = None \<Longrightarrow> \<exists>x\<in>set xs. f x = None"
  by (induction xs) (auto split: option.splits)

lemma those_map_id:
  "\<forall>x\<in>set xs. f x = Some x \<Longrightarrow> those (map f xs) = Some xs"
  by (induction xs) auto

lemma length_filter_distinct_keys:
  assumes "distinct (map f xs)"
  shows "length (filter (\<lambda>x. f x \<in> S) xs) = card (S \<inter> f ` set xs)"
proof -
  have d: "distinct (map f (filter (\<lambda>x. f x \<in> S) xs))"
    using assms by (rule distinct_map_filter)
  have "length (filter (\<lambda>x. f x \<in> S) xs) = length (map f (filter (\<lambda>x. f x \<in> S) xs))"
    by simp
  also have "\<dots> = card (set (map f (filter (\<lambda>x. f x \<in> S) xs)))"
    using d by (simp only: distinct_card)
  also have "set (map f (filter (\<lambda>x. f x \<in> S) xs)) = S \<inter> f ` set xs"
    by auto
  finally show ?thesis .
qed

lemma absent_item_length:
  assumes dist: "distinct (map item_id (db_items d))"
    and ci: "ci \<in> set lines" and ab: "absent_from_catalog d (ci_item_id ci)"
  shows "length (get_items_by_ids d (map ci_item_id lines)) \<noteq> length (map ci_item_id lines)"
proof (cases "those (map object_id (map ci_item_id lines))")
  case None
  then show ?thesis using ci by (auto simp: get_items_by_ids_def)
next
  case (Some oids)
  from those_map_Some [OF Some] ci
  obtain a where len: "length oids = length (map ci_item_id lines)"
    and a: "object_id (ci_item_id ci) = Some a" "a \<in> set oids"
    by auto
  from ab a have na: "a \<notin> item_id ` set (db_items d)"
    by (simp add: absent_from_catalog_def)
  have "set oids \<inter> item_id ` set (db_items d) \<subseteq> set oids - {a}"
    using na by blast
  then have "card (set oids \<inter> item_id ` set (db_items d)) \<le> card (set oids - {a})"
    by (intro card_mono) auto
  also have "\<dots> < card (set oids)"
    using a(2) by (intro card_Diff1_less) auto
  also have "\<dots> \<le> length oids" by (rule card_length)
  finally have "length (filter (\<lambda>i. item_id i \<in> set oids) (db_items d)) < length oids"
    using length_filter_distinct_keys [OF dist, of "set oids"] by simp
  then show ?thesis
    using Some len by (simp add: get_items_by_ids_def)
qed


lemma details_loop_subtotal:
  assumes "\<And>k it. m k = Some it \<Longrightarrow> parse_price (item_price it) = catalog_price d k"
  shows "details_loop m lines acc s = Inr (ds, t) \<Longrightarrow> t = s + order_subtotal d lines"
proof (induction lines arbitrary: acc s)
  case Nil
  then show ?case by (simp add: order_subtotal_def)
next
  case (Cons ci lines)
  from Cons.prems obtain it where it: "m (ci_item_id ci) = Some it"
    by (auto split: option.splits)
  let ?p = "parse_price (item_price it) * of_int (ci_quantity ci)"
  from Cons.prems it obtain acc' where "details_loop m lines acc' (s + ?p) = Inr (ds, t)"
    by (auto simp: Let_def)
  from Cons.IH [OF this] have "t = s + ?p + order_subtotal d lines" .
  then show ?case
    using assms [OF it] by (simp add: order_subtotal_def)
qed

lemma details_loop_succeeds:
  "\<forall>ci\<in>set lines. m (ci_item_id ci) \<noteq> None \<Longrightarrow> \<exists>ds t. details_loop m lines acc s = Inr (ds, t)"
  by (induction lines arbitrary: acc s) (auto simp: Let_def)

lemma items_map_SomeD:
  "items_map xs k = Some it \<Longrightarrow> it \<in> set xs \<and> item_id it = k"
  by (auto simp: items_map_def dest!: map_of_SomeD)

lemma items_map_member:
  "it \<in> set xs \<Longrightarrow> items_map xs (item_id it) \<noteq> None"
  by (simp add: items_map_def map_of_eq_None_iff image_iff) (metis)

lemma find_distinct_key:
  "distinct (map f xs) \<Longrightarrow> x \<in> set xs \<Longrightarrow> find (\<lambda>y. f y = f x) xs = Some x"
  by (induction xs) (auto simp: image_iff)

lemma items_map_catalog_price:
  assumes "distinct (map item_id (db_items d))"
    and "items_map (get_items_by_ids d ids) k = Some it"
  shows "parse_price (item_price it) = catalog_price d k"
proof -
  from items_map_SomeD [OF assms(2)] have "it \<in> set (get_items_by_ids d ids)" "item_id it = k"
    by simp_all
  then have "it \<in> set (db_items d)"
    by (auto simp: get_items_by_ids_def split: option.splits)
  from find_distinct_key [OF assms(1) this] \<open>item_id it = k\<close>
  show ?thesis by (simp add: catalog_price_def)
qed

lemma order_items_found:
  assumes dist: "distinct (map item_id (db_items d))"
    and ids: "\<forall>ci\<in>set lines. object_id (ci_item_id ci) = Some (ci_item_id ci) \<and>
                ci_item_id ci \<in> item_id ` set (db_items d)"
    and dl: "distinct (map ci_item_id lines)"
  shows "length (get_items_by_ids d (map ci_item_id lines)) = length lines"
    and "\<forall>ci\<in>set lines.
           items_map (get_items_by_ids d (map ci_item_id lines)) (ci_item_id ci) \<noteq> None"
proof -
  let ?ids = "map ci_item_id lines"
  have th: "those (map object_id ?ids) = Some ?ids"
    using ids by (intro those_map_id) auto
  then have g: "get_items_by_ids d ?ids = filter (\<lambda>i. item_id i \<in> set ?ids) (db_items d)"
    by (simp add: get_items_by_ids_def)
  have sub: "set ?ids \<subseteq> item_id ` set (db_items d)"
    using ids by auto
  then have "set ?ids \<inter> item_id ` set (db_items d) = set ?ids" by blast
  then have "length (get_items_by_ids d ?ids) = card (set ?ids)"
    unfolding g using length_filter_distinct_keys [OF dist, of "set ?ids"] by simp
  also have "\<dots> = length ?ids" using dl by (rule distinct_card)
  finally show "length (get_items_by_ids d ?ids) = length lines" by simp
  show "\<forall>ci\<in>set lines. items_map (get_items_by_ids d ?ids) (ci_item_id ci) \<noteq> None"
  proof
    fix ci assume ci: "ci \<in> set lines"
    with ids obtain it where it: "it \<in> set (db_items d)" "item_id it = ci_item_id ci"
      by auto
    with ci have "it \<in> set (get_items_by_ids d ?ids)"
      unfolding g by auto
    from items_map_member [OF this] it(2)
    show "items_map (get_items_by_ids d ?ids) (ci_item_id ci) \<noteq> None" by simp
  qed
qed

lemmas service_eval_simps =
  build_cart_def compute_cost_estimate_def create_receipt_def get_restaurant_by_id_def
  get_items_by_ids_def object_id_def is_hex_def lower_def lower_char_def items_map_def
  item_not_found_def parse_price_def parse_delivery_fee_def parser_eval_simps
  py_round2_def round_half_even_def tax_rate_def generate_receipt_id_def
  db_create_receipt_def receipt_prefix_def strftime_Ymd_def zfill_def digit_char_def
  order_subtotal_def catalog_price_def




section \<open>Verified properties: receipts\<close>

lemma order_priced:
  assumes dist: "distinct (map item_id (db_items d))"
    and ids: "\<forall>ci\<in>set lines. object_id (ci_item_id ci) = Some (ci_item_id ci) \<and>
                ci_item_id ci \<in> item_id ` set (db_items d)"
    and dl: "distinct (map ci_item_id lines)"
  shows "\<exists>ds. details_loop (items_map (get_items_by_ids d (map ci_item_id lines))) lines [] 0 =
              Inr (ds, order_subtotal d lines)"
proof -
  let ?m = "items_map (get_items_by_ids d (map ci_item_id lines))"
  from order_items_found(2) [OF dist ids dl] details_loop_succeeds [of lines ?m "[]" 0]
  obtain ds t where l: "details_loop ?m lines [] 0 = Inr (ds, t)" by blast
  from details_loop_subtotal [of ?m d lines "[]" 0 ds t] items_map_catalog_price [OF dist] l
  have "t = order_subtotal d lines" by simp
  with l show ?thesis by blast
qed

lemma catalog_price_member:
  "distinct (map item_id (db_items d)) \<Longrightarrow> it \<in> set (db_items d) \<Longrightarrow>
   catalog_price d (item_id it) = parse_price (item_price it)"
  by (simp add: catalog_price_def find_distinct_key)

text \<open>
  C9. In a catalog with unique item identifiers, a receipt for item A (price 12.99)
  twice and item B (price 5.00) once, at a restaurant whose delivery fee field is the
  text \<open>$2.99 flyer\<close>, is created and carries subtotal 30.98, delivery fee 2.99,
  tax 2.63 and total 36.60; the stored document is the returned one.
\<close>

theorem receipt_amounts_example:
  assumes dist: "distinct (map item_id (db_items d))"
    and rest: "get_restaurant_by_id d (req_restaurant_id request) = Some r"
              "rest_delivery_fee r = PStr ''$2.99 flyer''"
    and items: "ia \<in> set (db_items d)" "ib \<in> set (db_items d)" "item_id ia \<noteq> item_id ib"
    and oids: "object_id (item_id ia) = Some (item_id ia)"
              "object_id (item_id ib) = Some (item_id ib)"
    and prices: "parse_price (item_price ia) = 1299 / 100" "parse_price (item_price ib) = 5"
    and lines: "req_items request =
                  [\<lparr>ci_item_id = item_id ia, ci_quantity = 2\<rparr>,
                   \<lparr>ci_item_id = item_id ib, ci_quantity = 1\<rparr>]"
  shows "\<exists>rr d'. create_receipt d today created_at inserted_id request = (Inr rr, d') \<and>
           rc_subtotal rr = 3098 / 100 \<and> rc_delivery_fee rr = Some (299 / 100) \<and>
           rc_tax rr = 263 / 100 \<and> rc_total rr = 3660 / 100 \<and>
           db_receipts d' = db_receipts d @ [receipt.truncate rr]"
proof -
  let ?lines = "req_items request"
  have ids: "\<forall>ci\<in>set ?lines. object_id (ci_item_id ci) = Some (ci_item_id ci) \<and>
                ci_item_id ci \<in> item_id ` set (db_items d)"
    using items oids by (simp add: lines)
  have dl: "distinct (map ci_item_id ?lines)"
    using items(3) by (simp add: lines)
  have len: "length (get_items_by_ids d (map ci_item_id ?lines)) = length (map ci_item_id ?lines)"
    using order_items_found(1) [OF dist ids dl] by simp
  from order_priced [OF dist ids dl] obtain ds where
    l: "details_loop (items_map (get_items_by_ids d (map ci_item_id ?lines))) ?lines [] 0 =
          Inr (ds, order_subtotal d ?lines)" by blast
  have os: "order_subtotal d ?lines = 3098 / 100"
    using catalog_price_member [OF dist items(1)] catalog_price_member [OF dist items(2)] prices
    by (simp add: order_subtotal_def lines)
  have fee: "parse_delivery_fee (rest_delivery_fee r) = 299 / 100"
    by (simp add: rest(2) parse_delivery_fee_def parser_eval_simps)
  show ?thesis
    using rest(1) len l unfolding os
    by (simp add: create_receipt_def Let_def fee tax_rate_def py_round2_def round_half_even_def
                  db_create_receipt_def receipt.truncate_def receipt_response.defs receipt.defs)
qed

theorem receipt_amounts_example_witness:
  "\<exists>rr d'. create_receipt
      \<lparr>db_restaurants =
         [\<lparr>rest_id = ''69347db4fa0aa2fde8fdaeb3'', rest_name = Some ''U ME'',
           rest_delivery_fee = PStr ''$2.99 flyer''\<rparr>],
       db_items =
         [\<lparr>item_id = ''69347db5fa0aa2fde8fdaf17'', item_name = Some ''A'',
           item_description = None, item_price = PFloat (1299 / 100)\<rparr>,
          \<lparr>item_id = ''69347db5fa0aa2fde8fdaf18'', item_name = Some ''B'',
           item_description = None, item_price = PStr ''$5.00''\<rparr>],
       db_receipts = []\<rparr>
      \<lparr>year = 2024, month = 1, day = 5\<rparr> ''2024-01-05T10:00:00'' ''69347db5fa0aa2fde8fdaf99''
      \<lparr>req_restaurant_id = ''69347db4fa0aa2fde8fdaeb3'',
       req_items = [\<lparr>ci_item_id = ''69347db5fa0aa2fde8fdaf17'', ci_quantity = 2\<rparr>,
                    \<lparr>ci_item_id = ''69347db5fa0aa2fde8fdaf18'', ci_quantity = 1\<rparr>],
       req_delivery_id = None, req_customer_name = Some ''John Doe'',
       req_customer_email = None, req_customer_phone = None,
       req_delivery_address = None\<rparr> = (Inr rr, d') \<and>
     rc_subtotal rr = 3098 / 100 \<and> rc_delivery_fee rr = Some (299 / 100) \<and>
     rc_tax rr = 263 / 100 \<and> rc_total rr = 3660 / 100 \<and>
     db_receipts d' = [receipt.truncate rr]"
proof -
  let ?r = "\<lparr>rest_id = ''69347db4fa0aa2fde8fdaeb3'', rest_name = Some ''U ME'',
             rest_delivery_fee = PStr ''$2.99 flyer''\<rparr>"
  let ?a = "\<lparr>item_id = ''69347db5fa0aa2fde8fdaf17'', item_name = Some ''A'',
             item_description = None, item_price = PFloat (1299 / 100)\<rparr>"
  let ?b = "\<lparr>item_id = ''69347db5fa0aa2fde8fdaf18'', item_name = Some ''B'',
             item_description = None, item_price = PStr ''$5.00''\<rparr>"
  let ?d = "\<lparr>db_restaurants = [?r], db_items = [?a, ?b], db_receipts = []\<rparr>"
  let ?q = "\<lparr>req_restaurant_id = ''69347db4fa0aa2fde8fdaeb3'',
       req_items = [\<lparr>ci_item_id = ''69347db5fa0aa2fde8fdaf17'', ci_quantity = 2\<rparr>,
                    \<lparr>ci_item_id = ''69347db5fa0aa2fde8fdaf18'', ci_quantity = 1\<rparr>],
       req_delivery_id = None, req_customer_name = Some ''John Doe'',
       req_customer_email = None, req_customer_phone = None,
       req_delivery_address = None\<rparr>"
  have h: "distinct (map item_id (db_items ?d))"
    "get_restaurant_by_id ?d (req_restaurant_id ?q) = Some ?r"
    "rest_delivery_fee ?r = PStr ''$2.99 flyer''"
    "?a \<in> set (db_items ?d)" "?b \<in> set (db_items ?d)" "item_id ?a \<noteq> item_id ?b"
    "object_id (item_id ?a) = Some (item_id ?a)" "object_id (item_id ?b) = Some (item_id ?b)"
    "parse_price (item_price ?a) = 1299 / 100" "parse_price (item_price ?b) = 5"
    "req_items ?q = [\<lparr>ci_item_id = item_id ?a, ci_quantity = 2\<rparr>,
                     \<lparr>ci_item_id = item_id ?b, ci_quantity = 1\<rparr>]"
    by (simp_all add: get_restaurant_by_id_def object_id_def is_hex_def lower_def lower_char_def
                      parse_price_def parser_eval_simps)
  show ?thesis
    using receipt_amounts_example [OF h, of "\<lparr>year = 2024, month = 1, day = 5\<rparr>"
        "''2024-01-05T10:00:00''" "''69347db5fa0aa2fde8fdaf99''"]
    by simp
qed

section \<open>Verified properties: a delivery fee of zero\<close>




section \<open>Verified properties: items absent from the catalog\<close>

text \<open>
  C7 (as amended). In a catalog with unique item identifiers, a cart, estimate or
  receipt request that lists an identifier absent from the catalog fails: with status
  404 when the restaurant is unknown, and otherwise with status 400 and the detail
  \<open>One or more items not found or invalid\<close>. No pricing is returned, and the receipt
  collection is left as it was.
\<close>

theorem absent_item_rejected:
  assumes dist: "distinct (map item_id (db_items d))"
    and ci: "ci \<in> set (req_items request)"
    and ab: "absent_from_catalog d (ci_item_id ci)"
  shows "build_cart d request =
           Inl (case get_restaurant_by_id d (req_restaurant_id request) of
                  None \<Rightarrow> HTTPException 404 ''Restaurant not found''
                | Some r \<Rightarrow> HTTPException 400 ''One or more items not found or invalid'') \<and>
         compute_cost_estimate d request =
           Inl (case get_restaurant_by_id d (req_restaurant_id request) of
                  None \<Rightarrow> HTTPException 404 ''Restaurant not found''
                | Some r \<Rightarrow> HTTPException 400 ''One or more items not found or invalid'') \<and>
         create_receipt d today created_at inserted_id request =
           (Inl (case get_restaurant_by_id d (req_restaurant_id request) of
                   None \<Rightarrow> HTTPException 404 ''Restaurant not found''
                 | Some r \<Rightarrow> HTTPException 400 ''One or more items not found or invalid''),
            d)"
  using absent_item_length [OF dist ci ab]
  by (simp add: build_cart_def compute_cost_estimate_def create_receipt_def Let_def
           split: option.splits)

theorem absent_item_rejected_witness:
  "create_receipt
      \<lparr>db_restaurants =
         [\<lparr>rest_id = ''69347db4fa0aa2fde8fdaeb3'', rest_name = Some ''U ME'',
           rest_delivery_fee = PFloat (299 / 100)\<rparr>],
       db_items =
         [\<lparr>item_id = ''69347db5fa0aa2fde8fdaf17'', item_name = Some ''Roll'',
           item_description = None, item_price = PFloat (1299 / 100)\<rparr>],
       db_receipts = []\<rparr>
      \<lparr>year = 2024, month = 1, day = 5\<rparr> ''2024-01-05T10:00:00'' ''69347db5fa0aa2fde8fdaf99''
      \<lparr>req_restaurant_id = ''69347db4fa0aa2fde8fdaeb3'',
       req_items = [\<lparr>ci_item_id = ''69347db5fa0aa2fde8fdaf17'', ci_quantity = 2\<rparr>,
                    \<lparr>ci_item_id = ''69347db5fa0aa2fde8fdaf18'', ci_quantity = 1\<rparr>],
       req_delivery_id = None, req_customer_name = None, req_customer_email = None,
       req_customer_phone = None, req_delivery_address = None\<rparr> =
     (Inl (HTTPException 400 ''One or more items not found or invalid''),
      \<lparr>db_restaurants =
         [\<lparr>rest_id = ''69347db4fa0aa2fde8fdaeb3'', rest_name = Some ''U ME'',
           rest_delivery_fee = PFloat (299 / 100)\<rparr>],
       db_items =
         [\<lparr>item_id = ''69347db5fa0aa2fde8fdaf17'', item_name = Some ''Roll'',
           item_description = None, item_price = PFloat (1299 / 100)\<rparr>],
       db_receipts = []\<rparr>)"
proof -
  let ?d = "\<lparr>db_restaurants =
         [\<lparr>rest_id = ''69347db4fa0aa2fde8fdaeb3'', rest_name = Some ''U ME'',
           rest_delivery_fee = PFloat (299 / 100)\<rparr>],
       db_items =
         [\<lparr>item_id = ''69347db5fa0aa2fde8fdaf17'', item_name = Some ''Roll'',
           item_description = None, item_price = PFloat (1299 / 100)\<rparr>],
       db_receipts = []\<rparr>"
  let ?ci = "\<lparr>ci_item_id = ''69347db5fa0aa2fde8fdaf18'', ci_quantity = 1\<rparr>"
  let ?q = "\<lparr>req_restaurant_id = ''69347db4fa0aa2fde8fdaeb3'',
       req_items = [\<lparr>ci_item_id = ''69347db5fa0aa2fde8fdaf17'', ci_quantity = 2\<rparr>, ?ci],
       req_delivery_id = None, req_customer_name = None, req_customer_email = None,
       req_customer_phone = None, req_delivery_address = None\<rparr>"
  have h: "distinct (map item_id (db_items ?d))" "?ci \<in> set (req_items ?q)"
    "absent_from_catalog ?d (ci_item_id ?ci)"
    by (simp_all add: absent_from_catalog_def object_id_def is_hex_def lower_def lower_char_def)
  have r: "get_restaurant_by_id ?d (req_restaurant_id ?q) \<noteq> None"
    by (simp add: get_restaurant_by_id_def object_id_def is_hex_def lower_def lower_char_def)
  show ?thesis
    using absent_item_rejected [OF h, of "\<lparr>year = 2024, month = 1, day = 5\<rparr>"
        "''2024-01-05T10:00:00''" "''69347db5fa0aa2fde8fdaf99''"] r
    by (auto split: option.splits)
qed

text \<open>
  C7 as stated fails on the message and on the status: the detail of the 400 error
  does not contain the missing identifier, and with an unknown restaurant the status
  is 404.
\<close>

theorem absent_item_message_counterexample:
  "build_cart
      \<lparr>db_restaurants =
         [\<lparr>rest_id = ''69347db4fa0aa2fde8fdaeb3'', rest_name = Some ''U ME'',
           rest_delivery_fee = PFloat (299 / 100)\<rparr>],
       db_items =
         [\<lparr>item_id = ''69347db5fa0aa2fde8fdaf17'', item_name = Some ''Roll'',
           item_description = None, item_price = PFloat (1299 / 100)\<rparr>],
       db_receipts = []\<rparr>
      \<lparr>req_restaurant_id = ''69347db4fa0aa2fde8fdaeb3'',
       req_items = [\<lparr>ci_item_id = ''69347db5fa0aa2fde8fdaf17'', ci_quantity = 2\<rparr>,
                    \<lparr>ci_item_id = ''69347db5fa0aa2fde8fdaf18'', ci_quantity = 1\<rparr>]\<rparr> =
     Inl (HTTPException 400 ''One or more items not found or invalid'') \<and>
   \<not> sublist ''69347db5fa0aa2fde8fdaf18'' ''One or more items not found or invalid'' \<and>
   build_cart
      \<lparr>db_restaurants = [],
       db_items =
         [\<lparr>item_id = ''69347db5fa0aa2fde8fdaf17'', item_name = Some ''Roll'',
           item_description = None, item_price = PFloat (1299 / 100)\<rparr>],
       db_receipts = []\<rparr>
      \<lparr>req_restaurant_id = ''69347db4fa0aa2fde8fdaeb3'',
       req_items = [\<lparr>ci_item_id = ''69347db5fa0aa2fde8fdaf18'', ci_quantity = 1\<rparr>]\<rparr> =
     Inl (HTTPException 404 ''Restaurant not found'')"
  by (simp add: service_eval_simps sublist_code(3))

section \<open>Verified properties: receipt identifiers\<close>

lemma digit_char_is_digit: "k < 10 \<Longrightarrow> is_digit (digit_char k)"
proof -
  assume "k < 10"
  then have "k \<in> {0, 1, 2, 3, 4, 5, 6, 7, 8, 9}" by auto
  then show ?thesis
    by (auto simp: digit_char_def is_digit_def)
qed

lemma digit_val_digit_char: "k < 10 \<Longrightarrow> digit_val (digit_char k) = k"
proof -
  assume "k < 10"
  then have "k \<in> {0, 1, 2, 3, 4, 5, 6, 7, 8, 9}" by auto
  then show ?thesis
    by (auto simp: digit_char_def digit_val_def)
qed

lemma str_nat_digits: "\<forall>c\<in>set (str_nat n). is_digit c"
proof (induction n rule: str_nat.induct)
  case (1 n)
  show ?case
  proof (cases "n < 10")
    case True
    then show ?thesis by (subst str_nat.simps) (simp add: digit_char_is_digit)
  next
    case False
    with "1.IH" have "\<forall>c\<in>set (str_nat (n div 10)). is_digit c" by simp
    with False show ?thesis
      by (subst str_nat.simps) (simp add: digit_char_is_digit)
  qed
qed

lemma dec_value_snoc: "dec_value (s @ [c]) = 10 * dec_value s + digit_val c"
  by (simp add: dec_value_def)

lemma dec_value_str_nat: "dec_value (str_nat n) = n"
proof (induction n rule: str_nat.induct)
  case (1 n)
  show ?case
  proof (cases "n < 10")
    case True
    then show ?thesis
      by (subst str_nat.simps) (simp add: dec_value_def digit_val_digit_char)
  next
    case False
    with "1.IH" have "dec_value (str_nat (n div 10)) = n div 10" by simp
    with False show ?thesis
      by (subst str_nat.simps) (simp add: dec_value_snoc digit_val_digit_char)
  qed
qed

lemma dec_value_zeros: "foldl (\<lambda>a c. 10 * a + digit_val c) 0 (replicate k CHR ''0'') = 0"
  by (induction k) (simp_all add: digit_val_def)

lemma dec_value_zfill: "dec_value (zfill w s) = dec_value s"
  by (simp add: zfill_def dec_value_def dec_value_zeros)

lemma zero_is_digit: "is_digit CHR ''0''"
  by (simp add: is_digit_def)

lemma zfill_digits: "\<forall>c\<in>set s. is_digit c \<Longrightarrow> \<forall>c\<in>set (zfill w s). is_digit c"
  by (auto simp: zfill_def zero_is_digit)

lemma strftime_digits: "\<forall>c\<in>set (strftime_Ymd t). is_digit c"
  using zfill_digits [OF str_nat_digits] by (auto simp: strftime_Ymd_def)

lemma receipt_code_inject:
  assumes "\<forall>c\<in>set a. is_digit c" "\<forall>c\<in>set b. is_digit c"
    and "receipt_prefix a @ p = receipt_prefix b @ q"
  shows "a = b \<and> p = q"
proof -
  have m: "\<not> is_digit CHR ''-''" by (simp add: is_digit_def)
  from assms(3) have e: "a @ CHR ''-'' # p = b @ CHR ''-'' # q"
    by (simp add: receipt_prefix_def)
  have "takeWhile is_digit (a @ CHR ''-'' # p) = a"
    using assms(1) m by (simp add: takeWhile_tail)
  moreover have "takeWhile is_digit (b @ CHR ''-'' # q) = b"
    using assms(2) m by (simp add: takeWhile_tail)
  ultimately have "a = b" using e by simp
  with e show ?thesis by simp
qed

lemma receipt_prefix_match:
  assumes "\<forall>c\<in>set a. is_digit c" "\<forall>c\<in>set b. is_digit c"
  shows "prefix (receipt_prefix a) (receipt_prefix b @ q) \<longleftrightarrow> a = b"
proof
  assume "prefix (receipt_prefix a) (receipt_prefix b @ q)"
  then obtain z where "receipt_prefix b @ q = receipt_prefix a @ z"
    unfolding prefix_def by blast
  from receipt_code_inject [OF assms(2,1) this] show "a = b" by simp
next
  assume "a = b"
  then show "prefix (receipt_prefix a) (receipt_prefix b @ q)" by simp
qed

lemma generate_receipt_id_eq:
  "generate_receipt_id d today =
     receipt_prefix (strftime_Ymd today) @ zfill 3 (str_nat (day_count d (strftime_Ymd today) + 1))"
  by (simp add: generate_receipt_id_def day_count_def Let_def)

lemma create_receipt_Inr:
  assumes "create_receipt d today created_at inserted_id request = (Inr rr, d')"
  shows "receipt_id rr = generate_receipt_id d today \<and>
         (\<exists>doc. db_receipts d' = db_receipts d @ [doc] \<and> receipt_id doc = receipt_id rr)"
  using assms
  by (auto simp: create_receipt_def Let_def db_create_receipt_def
           split: option.splits if_splits sum.splits)

lemma create_receipt_Inl:
  assumes "create_receipt d today created_at inserted_id request = (Inl e, d')"
  shows "d' = d"
  using assms
  by (auto simp: create_receipt_def Let_def split: option.splits if_splits sum.splits)

lemma day_count_after:
  assumes "create_receipt d today created_at inserted_id request = (Inr rr, d')"
    and "\<forall>c\<in>set s. is_digit c"
  shows "day_count d' s = day_count d s + (if s = strftime_Ymd today then 1 else 0)"
proof -
  from create_receipt_Inr [OF assms(1)] obtain doc where
    doc: "db_receipts d' = db_receipts d @ [doc]"
      "receipt_id doc = generate_receipt_id d today" by auto
  have "prefix (receipt_prefix s) (receipt_id doc) \<longleftrightarrow> s = strftime_Ymd today"
    unfolding doc(2) generate_receipt_id_eq
    using receipt_prefix_match [OF assms(2) strftime_digits] by simp
  then show ?thesis
    by (simp add: day_count_def doc(1))
qed

lemma day_rank_Cons_Suc:
  "day_rank (p # out) (Suc j) = (if fst p = fst (out ! j) then 1 else 0) + day_rank out j"
  by (simp add: day_rank_def)

lemma day_rank_Cons_0: "day_rank (p # out) 0 = 1"
  by (simp add: day_rank_def)

lemma run_creations_ids:
  "k < length (run_creations d cs) \<Longrightarrow>
   (\<forall>c\<in>set (fst (run_creations d cs ! k)). is_digit c) \<and>
   snd (run_creations d cs ! k) =
     receipt_prefix (fst (run_creations d cs ! k)) @
     zfill 3 (str_nat (day_count d (fst (run_creations d cs ! k)) +
                       day_rank (run_creations d cs) k))"
proof (induction cs arbitrary: d k)
  case Nil
  then show ?case by simp
next
  case (Cons c cs)
  obtain res d' where cr:
    "create_receipt d (cr_today c) (cr_created_at c) (cr_inserted_id c) (cr_request c) = (res, d')"
    by (cases "create_receipt d (cr_today c) (cr_created_at c) (cr_inserted_id c) (cr_request c)")
  show ?case
  proof (cases res)
    case (Inl e)
    with cr have "d' = d" by (auto dest: create_receipt_Inl)
    with cr Inl have "run_creations d (c # cs) = run_creations d cs" by simp
    with Cons show ?thesis by simp
  next
    case (Inr rr)
    let ?s = "strftime_Ymd (cr_today c)"
    let ?out' = "run_creations d' cs"
    have out: "run_creations d (c # cs) = (?s, receipt_id rr) # ?out'"
      using cr Inr by simp
    have rid: "receipt_id rr = generate_receipt_id d (cr_today c)"
      using cr Inr by (auto dest: create_receipt_Inr)
    show ?thesis
    proof (cases k)
      case 0
      then show ?thesis
        unfolding out
        by (simp add: strftime_digits rid generate_receipt_id_eq day_rank_Cons_0)
    next
      case (Suc j)
      with Cons.prems have j: "j < length ?out'" unfolding out by simp
      from Cons.IH [OF j] have
        dg: "\<forall>c\<in>set (fst (?out' ! j)). is_digit c" and
        id: "snd (?out' ! j) = receipt_prefix (fst (?out' ! j)) @
               zfill 3 (str_nat (day_count d' (fst (?out' ! j)) + day_rank ?out' j))"
        by simp_all
      have dc: "day_count d' (fst (?out' ! j)) =
                day_count d (fst (?out' ! j)) + (if fst (?out' ! j) = ?s then 1 else 0)"
        using cr Inr dg by (intro day_count_after) auto
      have "day_count d' (fst (?out' ! j)) + day_rank ?out' j =
            day_count d (fst (?out' ! j)) + day_rank ((?s, receipt_id rr) # ?out') (Suc j)"
        unfolding dc day_rank_Cons_Suc by auto
      with dg id show ?thesis
        unfolding out Suc by simp
    qed
  qed
qed

lemma day_rank_mono:
  assumes "j < k" "k < length out" "fst (out ! j) = fst (out ! k)"
  shows "day_rank out j < day_rank out k"
proof -
  let ?P = "\<lambda>p. fst p = fst (out ! k)"
  have tk: "take (Suc k) out = take k out @ [out ! k]"
    using assms(2) by (simp add: take_Suc_conv_app_nth)
  have m: "min (Suc j) k = Suc j" using assms(1) by simp
  have tj: "take (Suc j) (take k out) = take (Suc j) out"
    by (simp only: take_take m)
  have e: "take (Suc j) out @ drop (Suc j) (take k out) = take k out"
    unfolding tj [symmetric] by (rule append_take_drop_id)
  have "length (filter ?P (take (Suc j) out)) \<le>
        length (filter ?P (take (Suc j) out @ drop (Suc j) (take k out)))"
    by (simp only: filter_append length_append le_add1)
  then have "length (filter ?P (take (Suc j) out)) \<le> length (filter ?P (take k out))"
    by (simp only: e)
  also have "\<dots> < length (filter ?P (take (Suc k) out))"
    by (simp only: tk filter_append) simp
  finally show ?thesis
    by (simp only: day_rank_def assms(3))
qed

text \<open>
  C5. Starting from an empty receipt collection, run any sequence of receipt creations.
  The creation that is the N-th successful one of its UTC day returns the identifier
  \<open>RCP-<YYYYMMDD>-<N>\<close> with \<open>N\<close> padded with zeros to three digits; within a day
  the sequence numbers grow strictly from one successful creation to the next; and no
  two successful creations return the same identifier.
\<close>

theorem receipt_ids_sequenced:
  assumes empty: "db_receipts d = []"
    and out: "out = run_creations d creations"
  shows "(\<forall>k<length out.
            snd (out ! k) =
              ''RCP-'' @ fst (out ! k) @ ''-'' @ zfill 3 (str_nat (day_rank out k))) \<and>
         (\<forall>j k. j < k \<and> k < length out \<and> fst (out ! j) = fst (out ! k) \<longrightarrow>
            day_rank out j < day_rank out k) \<and>
         distinct (map snd out)"
proof -
  have z: "day_count d s = 0" for s
    by (simp add: day_count_def empty)
  have id: "snd (out ! k) = receipt_prefix (fst (out ! k)) @ zfill 3 (str_nat (day_rank out k))"
    and dg: "\<forall>c\<in>set (fst (out ! k)). is_digit c"
    if "k < length out" for k
    using run_creations_ids [of k d creations] that unfolding out by (simp_all add: z)
  have a: "\<forall>k<length out.
            snd (out ! k) = ''RCP-'' @ fst (out ! k) @ ''-'' @ zfill 3 (str_nat (day_rank out k))"
    using id by (simp add: receipt_prefix_def)
  have b: "\<forall>j k. j < k \<and> k < length out \<and> fst (out ! j) = fst (out ! k) \<longrightarrow>
            day_rank out j < day_rank out k"
    using day_rank_mono by blast
  have ne: "snd (out ! j) \<noteq> snd (out ! k)" if "j < k" "k < length out" for j k
  proof
    assume eq: "snd (out ! j) = snd (out ! k)"
    from that have jl: "j < length out" by simp
    from eq have "receipt_prefix (fst (out ! j)) @ zfill 3 (str_nat (day_rank out j)) =
                  receipt_prefix (fst (out ! k)) @ zfill 3 (str_nat (day_rank out k))"
      by (simp only: id [OF jl] id [OF that(2)])
    from receipt_code_inject [OF dg [OF jl] dg [OF that(2)] this]
    have s: "fst (out ! j) = fst (out ! k)"
      and q: "zfill 3 (str_nat (day_rank out j)) = zfill 3 (str_nat (day_rank out k))"
      by simp_all
    from q have "dec_value (zfill 3 (str_nat (day_rank out j))) =
                 dec_value (zfill 3 (str_nat (day_rank out k)))" by simp
    then have "day_rank out j = day_rank out k"
      by (simp only: dec_value_zfill dec_value_str_nat)
    with day_rank_mono [OF that s] show False by simp
  qed
  have c: "distinct (map snd out)"
  proof (unfold distinct_conv_nth, intro allI impI)
    fix i j assume h: "i < length (map snd out)" "j < length (map snd out)" "i \<noteq> j"
    then consider "i < j" | "j < i" by linarith
    then show "map snd out ! i \<noteq> map snd out ! j"
    proof cases
      case 1
      with h ne [of i j] show ?thesis by simp
    next
      case 2
      with h ne [of j i] show ?thesis by simp
    qed
  qed
  show ?thesis
    using a b c by blast
qed

theorem receipt_ids_sequenced_witness:
  "distinct (map snd (run_creations
     \<lparr>db_restaurants =
        [\<lparr>rest_id = ''69347db4fa0aa2fde8fdaeb3'', rest_name = Some ''U ME'',
          rest_delivery_fee = PFloat (299 / 100)\<rparr>],
      db_items =
        [\<lparr>item_id = ''69347db5fa0aa2fde8fdaf17'', item_name = Some ''Roll'',
          item_description = None, item_price = PFloat (1299 / 100)\<rparr>],
      db_receipts = []\<rparr>
     [\<lparr>cr_today = \<lparr>year = 2024, month = 1, day = 5\<rparr>, cr_created_at = ''2024-01-05T10:00:00'',
       cr_inserted_id = ''69347db5fa0aa2fde8fdaf91'',
       cr_request =
         \<lparr>req_restaurant_id = ''69347db4fa0aa2fde8fdaeb3'',
          req_items = [\<lparr>ci_item_id = ''69347db5fa0aa2fde8fdaf17'', ci_quantity = 1\<rparr>],
          req_delivery_id = None, req_customer_name = None, req_customer_email = None,
          req_customer_phone = None, req_delivery_address = None\<rparr>\<rparr>,
      \<lparr>cr_today = \<lparr>year = 2024, month = 1, day = 5\<rparr>, cr_created_at = ''2024-01-05T23:59:59'',
       cr_inserted_id = ''69347db5fa0aa2fde8fdaf92'',
       cr_request =
         \<lparr>req_restaurant_id = ''69347db4fa0aa2fde8fdaeb3'',
          req_items = [\<lparr>ci_item_id = ''69347db5fa0aa2fde8fdaf17'', ci_quantity = 2\<rparr>],
          req_delivery_id = None, req_customer_name = None, req_customer_email = None,
          req_customer_phone = None, req_delivery_address = None\<rparr>\<rparr>,
      \<lparr>cr_today = \<lparr>year = 2024, month = 1, day = 6\<rparr>, cr_created_at = ''2024-01-06T00:00:01'',
       cr_inserted_id = ''69347db5fa0aa2fde8fdaf93'',
       cr_request =
         \<lparr>req_restaurant_id = ''69347db4fa0aa2fde8fdaeb3'',
          req_items = [\<lparr>ci_item_id = ''69347db5fa0aa2fde8fdaf17'', ci_quantity = 3\<rparr>],
          req_delivery_id = None, req_customer_name = None, req_customer_email = None,
          req_customer_phone = None, req_delivery_address = None\<rparr>\<rparr>])) \<and>
   snd (run_creations
     \<lparr>db_restaurants =
        [\<lparr>rest_id = ''69347db4fa0aa2fde8fdaeb3'', rest_name = Some ''U ME'',
          rest_delivery_fee = PFloat (299 / 100)\<rparr>],
      db_items =
        [\<lparr>item_id = ''69347db5fa0aa2fde8fdaf17'', item_name = Some ''Roll'',
          item_description = None, item_price = PFloat (1299 / 100)\<rparr>],
      db_receipts = []\<rparr>
     [\<lparr>cr_today = \<lparr>year = 2024, month = 1, day = 5\<rparr>, cr_created_at = ''2024-01-05T10:00:00'',
       cr_inserted_id = ''69347db5fa0aa2fde8fdaf91'',
       cr_request =
         \<lparr>req_restaurant_id = ''69347db4fa0aa2fde8fdaeb3'',
          req_items = [\<lparr>ci_item_id = ''69347db5fa0aa2fde8fdaf17'', ci_quantity = 1\<rparr>],
          req_delivery_id = None, req_customer_name = None, req_customer_email = None,
          req_customer_phone = None, req_delivery_address = None\<rparr>\<rparr>,
      \<lparr>cr_today = \<lparr>year = 2024, month = 1, day = 5\<rparr>, cr_created_at = ''2024-01-05T23:59:59'',
       cr_inserted_id = ''69347db5fa0aa2fde8fdaf92'',
       cr_request =
         \<lparr>req_restaurant_id = ''69347db4fa0aa2fde8fdaeb3'',
          req_items = [\<lparr>ci_item_id = ''69347db5fa0aa2fde8fdaf17'', ci_quantity = 2\<rparr>],
          req_delivery_id = None, req_customer_name = None, req_customer_email = None,
          req_customer_phone = None, req_delivery_address = None\<rparr>\<rparr>,
      \<lparr>cr_today = \<lparr>year = 2024, month = 1, day = 6\<rparr>, cr_created_at = ''2024-01-06T00:00:01'',
       cr_inserted_id = ''69347db5fa0aa2fde8fdaf93'',
       cr_request =
         \<lparr>req_restaurant_id = ''69347db4fa0aa2fde8fdaeb3'',
          req_items = [\<lparr>ci_item_id = ''69347db5fa0aa2fde8fdaf17'', ci_quantity = 3\<rparr>],
          req_delivery_id = None, req_customer_name = None, req_customer_email = None,
          req_customer_phone = None, req_delivery_address = None\<rparr>\<rparr>] ! 1) = ''RCP-20240105-002''"
proof -
  let ?d = "\<lparr>db_restaurants =
        [\<lparr>rest_id = ''69347db4fa0aa2fde8fdaeb3'', rest_name = Some ''U ME'',
          rest_delivery_fee = PFloat (299 / 100)\<rparr>],
      db_items =
        [\<lparr>item_id = ''69347db5fa0aa2fde8fdaf17'', item_name = Some ''Roll'',
          item_description = None, item_price = PFloat (1299 / 100)\<rparr>],
      db_receipts = []\<rparr>"
  let ?cs = "[\<lparr>cr_today = \<lparr>year = 2024, month = 1, day = 5\<rparr>, cr_created_at = ''2024-01-05T10:00:00'',
       cr_inserted_id = ''69347db5fa0aa2fde8fdaf91'',
       cr_request =
         \<lparr>req_restaurant_id = ''69347db4fa0aa2fde8fdaeb3'',
          req_items = [\<lparr>ci_item_id = ''69347db5fa0aa2fde8fdaf17'', ci_quantity = 1\<rparr>],
          req_delivery_id = None, req_customer_name = None, req_customer_email = None,
          req_customer_phone = None, req_delivery_address = None\<rparr>\<rparr>,
      \<lparr>cr_today = \<lparr>year = 2024, month = 1, day = 5\<rparr>, cr_created_at = ''2024-01-05T23:59:59'',
       cr_inserted_id = ''69347db5fa0aa2fde8fdaf92'',
       cr_request =
         \<lparr>req_restaurant_id = ''69347db4fa0aa2fde8fdaeb3'',
          req_items = [\<lparr>ci_item_id = ''69347db5fa0aa2fde8fdaf17'', ci_quantity = 2\<rparr>],
          req_delivery_id = None, req_customer_name = None, req_customer_email = None,
          req_customer_phone = None, req_delivery_address = None\<rparr>\<rparr>,
      \<lparr>cr_today = \<lparr>year = 2024, month = 1, day = 6\<rparr>, cr_created_at = ''2024-01-06T00:00:01'',
       cr_inserted_id = ''69347db5fa0aa2fde8fdaf93'',
       cr_request =
         \<lparr>req_restaurant_id = ''69347db4fa0aa2fde8fdaeb3'',
          req_items = [\<lparr>ci_item_id = ''69347db5fa0aa2fde8fdaf17'', ci_quantity = 3\<rparr>],
          req_delivery_id = None, req_customer_name = None, req_customer_email = None,
          req_customer_phone = None, req_delivery_address = None\<rparr>\<rparr>]"
  have ev: "run_creations ?d ?cs =
      [(''20240105'', ''RCP-20240105-001''), (''20240105'', ''RCP-20240105-002''),
       (''20240106'', ''RCP-20240106-001'')]"
    by code_simp
  have z: "zfill 3 (str_nat (Suc (Suc 0))) = ''002''"
    by code_simp
  have e: "db_receipts ?d = []" by simp
  from receipt_ids_sequenced [OF e refl, of ?cs]
  have a: "\<forall>k<length (run_creations ?d ?cs).
            snd (run_creations ?d ?cs ! k) =
              ''RCP-'' @ fst (run_creations ?d ?cs ! k) @ ''-'' @
              zfill 3 (str_nat (day_rank (run_creations ?d ?cs) k))"
    and c: "distinct (map snd (run_creations ?d ?cs))"
    by blast+
  have "1 < length (run_creations ?d ?cs)" unfolding ev by simp
  with a have "snd (run_creations ?d ?cs ! 1) =
      ''RCP-'' @ fst (run_creations ?d ?cs ! 1) @ ''-'' @
      zfill 3 (str_nat (day_rank (run_creations ?d ?cs) 1))" by blast
  also have "\<dots> = ''RCP-20240105-002''"
    unfolding ev by (simp add: day_rank_def z)
  finally show ?thesis using c by blast
qed

section \<open>Verified properties: the tool dispatcher\<close>

lemma io_catch_total:
  "(\<And>e w. \<exists>r w'. h e w = (Inr r, w')) \<Longrightarrow> \<exists>r w'. io_catch m h w = (Inr r, w')"
  by (cases "m w") (auto simp: io_catch_def split: sum.splits)





lemma error_result_keys:
  "has_key ''error'' (error_result m) \<and> \<not> has_key ''error_type'' (error_result m)"
  by (simp add: error_result_def has_key_def)

lemmas io_simps = io_bind_def io_return_def io_of_def io_catch_def

lemma failing_ops [simp]:
  "op_list_restaurants (failing_services e) l s = io_of (Inl e)"
  "op_get_restaurant_menu_by_name (failing_services e) n = io_of (Inl e)"
  "op_resolve_restaurant_name_to_id (failing_services e) n = io_of (Inl e)"
  "op_resolve_item_name_to_id (failing_services e) n i = io_of (Inl e)"
  "op_get_menu_item (failing_services e) x = io_of (Inl e)"
  "op_build_cart (failing_services e) r xs = io_of (Inl e)"
  "op_compute_cost_estimate (failing_services e) r xs = io_of (Inl e)"
  "op_create_receipt (failing_services e) r xs ys = io_of (Inl e)"
  "op_validate_delivery_request (failing_services e) a = Inl e"
  "op_create_delivery (failing_services e) a = io_of (Inl e)"
  "op_track_delivery (failing_services e) a = io_of (Inl e)"
  by (simp_all add: failing_services_def)

lemma resolve_items_failing:
  "case resolve_items (failing_services e) rn entries acc w of
     (Inl e', w') \<Rightarrow> True
   | (Inr (Inl early), w') \<Rightarrow> has_key ''error'' early
   | (Inr (Inr resolved), w') \<Rightarrow> entries = []"
proof (cases entries)
  case Nil
  then show ?thesis by (simp add: io_simps)
next
  case (Cons x xs)
  then show ?thesis
    by (cases "py_get x ''item_name'' JNull"; cases "py_get x ''quantity'' JNull")
       (simp_all add: io_simps error_result_keys)
qed



lemma execute_function_call_total:
  "\<exists>r w'. execute_function_call svc n a w = (Inr r, w')"
  unfolding execute_function_call_def
  by (rule io_catch_total) (simp add: io_return_def)





section \<open>Verified properties: the orchestration loop\<close>

lemma run_tool_calls_appends:
  "run_tool_calls env tcs msgs w = (Inr msgs', w') \<Longrightarrow>
   \<exists>ts. msgs' = msgs @ ts \<and> (\<forall>m\<in>set ts. role m = Some ''tool'')"
proof (induction tcs arbitrary: msgs w)
  case Nil
  then show ?case by (simp add: io_return_def)
next
  case (Cons tc tcs)
  let ?args = "case json_loads env (tc_arguments tc) of Some a \<Rightarrow> a | None \<Rightarrow> JObj []"
  obtain res w1 where e: "execute_function_call env (tc_name tc) ?args w = (res, w1)"
    by (cases "execute_function_call env (tc_name tc) ?args w")
  show ?case
  proof (cases res)
    case (Inl x)
    with e Cons.prems show ?thesis by (simp add: io_bind_def Let_def)
  next
    case (Inr r)
    let ?t = "\<lparr>role = Some ''tool'',
               content = Some (truncate_large_content (json_dumps env (result_for_model r))
                                 (if tc_name tc = ''list_restaurants'' then 15000 else 5000)),
               tool_calls = [], tool_call_id = Some (tc_id tc)\<rparr>"
    from e Inr Cons.prems have "run_tool_calls env tcs (msgs @ [?t]) w1 = (Inr msgs', w')"
      by (simp add: io_bind_def Let_def)
    from Cons.IH [OF this] obtain ts where
      "msgs' = (msgs @ [?t]) @ ts" "\<forall>m\<in>set ts. role m = Some ''tool''" by blast
    then have "msgs' = msgs @ (?t # ts) \<and> (\<forall>m\<in>set (?t # ts). role m = Some ''tool'')"
      by simp
    then show ?thesis by blast
  qed
qed

lemma agent_loop_exhausted:
  "\<not> iteration < max_iterations \<Longrightarrow>
   agent_loop env iteration messages w =
     (Inr \<lparr>lr_final_response = [], lr_messages = messages, lr_iteration = iteration\<rparr>, w)"
  by (subst agent_loop.simps) simp

lemma agent_loop_llm_fails:
  "iteration < max_iterations \<Longrightarrow> llm env (map api_message messages) w = (Inl e, w1) \<Longrightarrow>
   agent_loop env iteration messages w = (Inl e, w1)"
  by (subst agent_loop.simps) simp

lemma agent_loop_text:
  "iteration < max_iterations \<Longrightarrow> llm env (map api_message messages) w = (Inr reply, w1) \<Longrightarrow>
   reply_tool_calls reply = [] \<Longrightarrow>
   agent_loop env iteration messages w =
     (Inr \<lparr>lr_final_response = (case reply_content reply of Some t \<Rightarrow> t | None \<Rightarrow> []),
           lr_messages = messages @ [assistant_msg_dict reply],
           lr_iteration = iteration\<rparr>, w1)"
  by (subst agent_loop.simps) (simp add: Let_def)

lemma agent_loop_tools_fail:
  "iteration < max_iterations \<Longrightarrow> llm env (map api_message messages) w = (Inr reply, w1) \<Longrightarrow>
   reply_tool_calls reply \<noteq> [] \<Longrightarrow>
   run_tool_calls env (reply_tool_calls reply) (messages @ [assistant_msg_dict reply]) w1 =
     (Inl e, w2) \<Longrightarrow>
   agent_loop env iteration messages w = (Inl e, w2)"
  by (subst agent_loop.simps) (simp add: Let_def)

lemma agent_loop_tools:
  "iteration < max_iterations \<Longrightarrow> llm env (map api_message messages) w = (Inr reply, w1) \<Longrightarrow>
   reply_tool_calls reply \<noteq> [] \<Longrightarrow>
   run_tool_calls env (reply_tool_calls reply) (messages @ [assistant_msg_dict reply]) w1 =
     (Inr messages2, w2) \<Longrightarrow>
   agent_loop env iteration messages w = agent_loop env (iteration + 1) messages2 w2"
  by (subst agent_loop.simps) (simp add: Let_def)

lemma agent_loop_bounds:
  "iteration \<le> max_iterations \<Longrightarrow> agent_loop env iteration msgs w = (Inr lr, w') \<Longrightarrow>
   iteration \<le> lr_iteration lr \<and> lr_iteration lr \<le> max_iterations \<and>
   (lr_iteration lr = max_iterations \<longrightarrow> lr_final_response lr = []) \<and>
   length (filter is_assistant (lr_messages lr)) + iteration \<le>
     length (filter is_assistant msgs) + max_iterations"
proof (induction env iteration msgs w rule: agent_loop.induct)
  case (1 env iteration messages w)
  note res = "1.prems"(2)
  show ?case
  proof (cases "iteration < max_iterations")
    case False
    from res have "lr = \<lparr>lr_final_response = [], lr_messages = messages,
                         lr_iteration = iteration\<rparr>"
      unfolding agent_loop_exhausted [OF False] by simp
    with False "1.prems"(1) show ?thesis by simp
  next
    case True
    obtain r w1 where l: "llm env (map api_message messages) w = (r, w1)"
      by (cases "llm env (map api_message messages) w")
    show ?thesis
    proof (cases r)
      case (Inl e)
      with res agent_loop_llm_fails [OF True, of env messages w e w1] l show ?thesis
        by simp
    next
      case (Inr reply)
      note l' = l [unfolded Inr]
      let ?m1 = "messages @ [assistant_msg_dict reply]"
      have ia: "is_assistant (assistant_msg_dict reply)"
        by (simp add: is_assistant_def assistant_msg_dict_def)
      then have a1: "length (filter is_assistant ?m1) = length (filter is_assistant messages) + 1"
        by simp
      show ?thesis
      proof (cases "reply_tool_calls reply = []")
        case True
        from res have "lr = \<lparr>lr_final_response =
                               (case reply_content reply of Some t \<Rightarrow> t | None \<Rightarrow> []),
                             lr_messages = ?m1, lr_iteration = iteration\<rparr>"
          unfolding agent_loop_text [OF \<open>iteration < max_iterations\<close> l' True] by simp
        with \<open>iteration < max_iterations\<close> a1 show ?thesis by simp
      next
        case False
        obtain r2 w2 where t: "run_tool_calls env (reply_tool_calls reply) ?m1 w1 = (r2, w2)"
          by (cases "run_tool_calls env (reply_tool_calls reply) ?m1 w1")
        show ?thesis
        proof (cases r2)
          case (Inl e)
          with res agent_loop_tools_fail [OF True l' False, of e w2] t show ?thesis
            by simp
        next
          case (Inr messages2)
          note t' = t [unfolded Inr]
          from run_tool_calls_appends [OF t'] obtain ts where
            ts: "messages2 = ?m1 @ ts" "\<forall>m\<in>set ts. role m = Some ''tool''" by blast
          then have "filter is_assistant ts = []"
            by (auto simp: filter_empty_conv is_assistant_def)
          then have a2:
            "length (filter is_assistant messages2) = length (filter is_assistant messages) + 1"
            unfolding ts(1) using ia by simp
          from res have rec: "agent_loop env (iteration + 1) messages2 w2 = (Inr lr, w')"
            unfolding agent_loop_tools [OF True l' False t'] .
          have le: "iteration + 1 \<le> max_iterations" using True by simp
          have ih: "iteration + 1 \<le> lr_iteration lr \<and> lr_iteration lr \<le> max_iterations \<and>
             (lr_iteration lr = max_iterations \<longrightarrow> lr_final_response lr = []) \<and>
             length (filter is_assistant (lr_messages lr)) + (iteration + 1) \<le>
               length (filter is_assistant messages2) + max_iterations"
            by (rule "1.IH" [OF True l [symmetric] \<open>r = Inr reply\<close> refl False t [symmetric]
                  Inr le rec])
          then show ?thesis unfolding a2 by simp
        qed
      qed
    qed
  qed
qed

lemma find_last_match:
  "P m \<Longrightarrow> \<forall>x\<in>set post. \<not> P x \<Longrightarrow> find P (rev (pre @ m # post)) = Some m"
  using find_first_match [of P m "rev post" "rev pre"] by simp

lemma final_answer_text: "lr_final_response lr \<noteq> [] \<Longrightarrow> final_answer env lr = lr_final_response lr"
  by (simp add: final_answer_def)

lemma final_answer_assistant:
  assumes "lr_final_response lx = []" and "lr_messages lx = pre @ m # post"
    and "assistant_text m" and "\<forall>x\<in>set post. \<not> assistant_text x"
  shows "Some (final_answer env lx) = content m"
proof -
  have "find assistant_text (rev (lr_messages lx)) = Some m"
    unfolding assms(2) using assms(3,4) by (rule find_last_match)
  moreover obtain t where "content m = Some t"
    using assms(3) by (auto simp: assistant_text_def split: option.splits)
  ultimately show ?thesis
    using assms(1) by (simp add: final_answer_def)
qed

lemma no_assistant_text:
  "\<forall>x\<in>set ms. \<not> assistant_text x \<Longrightarrow> find assistant_text (rev ms) = None"
  by (simp add: find_None_iff)

lemma final_answer_error:
  "lr_final_response lx = [] \<Longrightarrow> \<forall>x\<in>set (lr_messages lx). \<not> assistant_text x \<Longrightarrow>
   error_messages env (lr_messages lx) \<noteq> [] \<Longrightarrow>
   final_answer env lx =
     ''I encountered an error: '' @ format_value env (last (error_messages env (lr_messages lx)))"
  by (simp add: final_answer_def no_assistant_text)

lemma final_answer_apology:
  "lr_final_response lx = [] \<Longrightarrow> \<forall>x\<in>set (lr_messages lx). \<not> assistant_text x \<Longrightarrow>
   error_messages env (lr_messages lx) = [] \<Longrightarrow> final_answer env lx = apology"
  by (simp add: final_answer_def no_assistant_text)

lemma agent_chat_answer:
  "agent_chat env request st = (Inr rs, st') \<Longrightarrow>
   \<exists>ms v lr v'. agent_loop env 0 ms v = (Inr lr, v') \<and> rs_response rs = final_answer env lr"
  unfolding agent_chat_def Let_def
  by (auto split: option.splits list.splits prod.splits sum.splits; blast)

lemma run_tool_calls_returns: "\<exists>msgs' w'. run_tool_calls env tcs msgs w = (Inr msgs', w')"
proof (induction tcs arbitrary: msgs w)
  case Nil
  show ?case by (simp add: io_return_def)
next
  case (Cons tc tcs)
  let ?args = "case json_loads env (tc_arguments tc) of Some a \<Rightarrow> a | None \<Rightarrow> JObj []"
  obtain res w1 where e: "execute_function_call env (tc_name tc) ?args w = (Inr res, w1)"
    using execute_function_call_total [of env "tc_name tc" ?args w] by blast
  show ?case
    using Cons.IH e by (simp add: Let_def io_bind_def)
qed

lemma agent_loop_returns:
  "(\<And>ms v. \<not> isl (fst (llm env ms v))) \<Longrightarrow> \<not> isl (fst (agent_loop env iteration msgs w))"
proof (induction env iteration msgs w rule: agent_loop.induct)
  case (1 env iteration messages w)
  show ?case
  proof (cases "iteration < max_iterations")
    case False
    then show ?thesis by (simp add: agent_loop_exhausted)
  next
    case True
    obtain r w1 where l: "llm env (map api_message messages) w = (r, w1)"
      by (cases "llm env (map api_message messages) w")
    with "1.prems" [of "map api_message messages" w] obtain reply where r: "r = Inr reply"
      by (cases r) auto
    show ?thesis
    proof (cases "reply_tool_calls reply = []")
      case True
      with \<open>iteration < max_iterations\<close> l r show ?thesis by (simp add: agent_loop_text)
    next
      case False
      obtain ms2 w2 where t: "run_tool_calls env (reply_tool_calls reply)
          (messages @ [assistant_msg_dict reply]) w1 = (Inr ms2, w2)"
        using run_tool_calls_returns [of env "reply_tool_calls reply"
            "messages @ [assistant_msg_dict reply]" w1] by blast
      have "agent_loop env iteration messages w = agent_loop env (iteration + 1) ms2 w2"
        using True l r False t by (simp add: agent_loop_tools)
      moreover have "\<not> isl (fst (agent_loop env (iteration + 1) ms2 w2))"
        using "1.IH" [OF True l [symmetric] r refl False t [symmetric] refl] "1.prems" by blast
      ultimately show ?thesis by simp
    qed
  qed
qed

lemma stuck_run_exhausts:
  "lr_iteration (projr (fst (agent_loop stuck_env 0 [menu_prompt] ()))) = 10"
  by code_simp

lemma stuck_run_no_text:
  "list_all (\<lambda>x. \<not> assistant_text x)
     (lr_messages (projr (fst (agent_loop stuck_env 0 [menu_prompt] ()))))"
  by code_simp

lemma stuck_run_last_error:
  "error_messages stuck_env (lr_messages (projr (fst (agent_loop stuck_env 0 [menu_prompt] ())))) =
     replicate 10 (JStr ''Restaurant not found'')"
  by code_simp

text \<open>
  Claim C2 (as amended). A run of the orchestration loop that returns has made at most
  10 round trips and at most 10 completions, one assistant message each, and a run that
  used the whole budget left no final text; the loop returns whenever no completion
  raises. A completion with text and no tool calls,
  at any round within the budget, ends the loop with that text as the response. When
  the loop leaves no text, the response is the content of the last assistant message
  with text in the message list; with no such message and a tool result carrying an
  \<open>error\<close> entry, it is \<open>I encountered an error:\<close> followed by the last such entry;
  with neither, it is the apology. The response of a chat request that returns is the
  response of such a run.
\<close>

theorem orchestration_loop_bounded:
  "(agent_loop env 0 msgs w = (Inr lr, w') \<longrightarrow>
      lr_iteration lr \<le> 10 \<and>
      length (filter is_assistant (lr_messages lr)) \<le> length (filter is_assistant msgs) + 10 \<and>
      (lr_iteration lr = 10 \<longrightarrow> lr_final_response lr = [])) \<and>
   ((\<forall>ms0 v0. \<not> isl (fst (llm env ms0 v0))) \<longrightarrow> \<not> isl (fst (agent_loop env 0 msgs w))) \<and>
   (i < 10 \<and> llm env (map api_message ms) v = (Inr reply, v') \<and>
    reply_tool_calls reply = [] \<and> reply_content reply = Some (c # cs) \<longrightarrow>
      agent_loop env i ms v =
        (Inr \<lparr>lr_final_response = c # cs, lr_messages = ms @ [assistant_msg_dict reply],
              lr_iteration = i\<rparr>, v') \<and>
      final_answer env \<lparr>lr_final_response = c # cs,
        lr_messages = ms @ [assistant_msg_dict reply], lr_iteration = i\<rparr> = c # cs) \<and>
   (lr_final_response lx = [] \<and> lr_messages lx = pre @ m # post \<and> assistant_text m \<and>
    (\<forall>x\<in>set post. \<not> assistant_text x) \<longrightarrow>
      Some (final_answer env lx) = content m) \<and>
   (lr_final_response lx = [] \<and> (\<forall>x\<in>set (lr_messages lx). \<not> assistant_text x) \<and>
    error_messages env (lr_messages lx) \<noteq> [] \<longrightarrow>
      final_answer env lx =
        ''I encountered an error: '' @
        format_value env (last (error_messages env (lr_messages lx)))) \<and>
   (lr_final_response lx = [] \<and> (\<forall>x\<in>set (lr_messages lx). \<not> assistant_text x) \<and>
    error_messages env (lr_messages lx) = [] \<longrightarrow>
      final_answer env lx = apology) \<and>
   (agent_chat env request st = (Inr rs, st') \<longrightarrow>
      (\<exists>ms0 v0 lr0 v1. agent_loop env 0 ms0 v0 = (Inr lr0, v1) \<and>
         rs_response rs = final_answer env lr0))"
proof (intro conjI impI)
  assume run: "agent_loop env 0 msgs w = (Inr lr, w')"
  from agent_loop_bounds [OF _ run]
  have b: "lr_iteration lr \<le> max_iterations \<and>
    (lr_iteration lr = max_iterations \<longrightarrow> lr_final_response lr = []) \<and>
    length (filter is_assistant (lr_messages lr)) + 0 \<le>
      length (filter is_assistant msgs) + max_iterations"
    by simp
  from b show "lr_iteration lr \<le> 10" by (simp add: max_iterations_def)
  from b show "length (filter is_assistant (lr_messages lr)) \<le>
      length (filter is_assistant msgs) + 10" by (simp add: max_iterations_def)
  assume "lr_iteration lr = 10"
  with b show "lr_final_response lr = []" by (simp add: max_iterations_def)
next
  assume "\<forall>ms0 v0. \<not> isl (fst (llm env ms0 v0))"
  then show "\<not> isl (fst (agent_loop env 0 msgs w))"
    by (simp add: agent_loop_returns)
next
  assume h: "i < 10 \<and> llm env (map api_message ms) v = (Inr reply, v') \<and>
    reply_tool_calls reply = [] \<and> reply_content reply = Some (c # cs)"
  then have "i < max_iterations" by (simp add: max_iterations_def)
  with h show "agent_loop env i ms v =
        (Inr \<lparr>lr_final_response = c # cs, lr_messages = ms @ [assistant_msg_dict reply],
              lr_iteration = i\<rparr>, v')"
    by (simp add: agent_loop_text)
  show "final_answer env \<lparr>lr_final_response = c # cs,
        lr_messages = ms @ [assistant_msg_dict reply], lr_iteration = i\<rparr> = c # cs"
    by (simp add: final_answer_text)
next
  assume "lr_final_response lx = [] \<and> lr_messages lx = pre @ m # post \<and> assistant_text m \<and>
    (\<forall>x\<in>set post. \<not> assistant_text x)"
  then show "Some (final_answer env lx) = content m"
    by (simp add: final_answer_assistant)
next
  assume "lr_final_response lx = [] \<and> (\<forall>x\<in>set (lr_messages lx). \<not> assistant_text x) \<and>
    error_messages env (lr_messages lx) \<noteq> []"
  then show "final_answer env lx =
        ''I encountered an error: '' @
        format_value env (last (error_messages env (lr_messages lx)))"
    using final_answer_error [of lx env] by blast
next
  assume "lr_final_response lx = [] \<and> (\<forall>x\<in>set (lr_messages lx). \<not> assistant_text x) \<and>
    error_messages env (lr_messages lx) = []"
  then show "final_answer env lx = apology"
    using final_answer_apology [of lx env] by blast
next
  assume "agent_chat env request st = (Inr rs, st')"
  then show "\<exists>ms0 v0 lr0 v1. agent_loop env 0 ms0 v0 = (Inr lr0, v1) \<and>
         rs_response rs = final_answer env lr0"
    by (rule agent_chat_answer)
qed

theorem orchestration_loop_bounded_witness:
  "lr_iteration (projr (fst (agent_loop stuck_env 0 [menu_prompt] ()))) \<le> 10 \<and>
   lr_final_response (projr (fst (agent_loop stuck_env 0 [menu_prompt] ()))) = [] \<and>
   final_answer stuck_env (projr (fst (agent_loop stuck_env 0 [menu_prompt] ()))) =
     ''I encountered an error: Restaurant not found'' \<and>
   final_answer chatty_env (projr (fst (agent_loop chatty_env 0 [menu_prompt] ()))) =
     ''Which restaurant would you like?'' \<and>
   final_answer stuck_env
     \<lparr>lr_final_response = [],
      lr_messages = [menu_prompt,
        \<lparr>role = Some ''assistant'', content = Some ''Let me look that up.'',
         tool_calls = [menu_call], tool_call_id = None\<rparr>,
        \<lparr>role = Some ''tool'', content = Some not_found_text, tool_calls = [],
         tool_call_id = Some ''call_1''\<rparr>],
      lr_iteration = 10\<rparr> = ''Let me look that up.'' \<and>
   final_answer stuck_env
     \<lparr>lr_final_response = [],
      lr_messages = [menu_prompt,
        \<lparr>role = Some ''assistant'', content = None, tool_calls = [], tool_call_id = None\<rparr>],
      lr_iteration = 0\<rparr> = apology"
proof -
  let ?lr = "projr (fst (agent_loop stuck_env 0 [menu_prompt] ()))"
  let ?reply = "\<lparr>reply_content = Some ''Which restaurant would you like?'',
                  reply_tool_calls = []\<rparr>"
  let ?seen = "\<lparr>role = Some ''assistant'', content = Some ''Let me look that up.'',
                 tool_calls = [menu_call], tool_call_id = None\<rparr>"
  let ?result = "\<lparr>role = Some ''tool'', content = Some not_found_text, tool_calls = [],
                   tool_call_id = Some ''call_1''\<rparr>"
  let ?silent = "\<lparr>role = Some ''assistant'', content = None, tool_calls = [],
                   tool_call_id = None\<rparr>"
  let ?lx = "\<lparr>lr_final_response = [], lr_messages = [menu_prompt, ?seen, ?result],
               lr_iteration = 10\<rparr>"
  let ?ly = "\<lparr>lr_final_response = [], lr_messages = [menu_prompt, ?silent],
               lr_iteration = 0\<rparr>"
  note a = orchestration_loop_bounded [of stuck_env "[menu_prompt]" "()" ?lr "()"
      0 "[]" "()" ?reply "()" "CHR ''x''" "[]" ?lr "[]" menu_prompt "[]"]
  have "\<forall>ms0 v0. \<not> isl (fst (llm stuck_env ms0 v0))"
    by (simp add: stuck_env_def io_return_def services.extend_def agent_env.fields_def
        failing_services_def)
  with a have "\<not> isl (fst (agent_loop stuck_env 0 [menu_prompt] ()))"
    by blast
  then have run: "agent_loop stuck_env 0 [menu_prompt] () = (Inr ?lr, ())"
    by (simp add: prod_eq_iff)
  from a run have bound: "lr_iteration ?lr \<le> 10" by blast
  from a run stuck_run_exhausts have empty: "lr_final_response ?lr = []" by blast
  have quiet: "\<forall>x\<in>set (lr_messages ?lr). \<not> assistant_text x"
    using stuck_run_no_text by (simp only: list_all_iff)
  have errs: "error_messages stuck_env (lr_messages ?lr) \<noteq> []"
    by (simp add: stuck_run_last_error)
  from a empty quiet errs have "final_answer stuck_env ?lr =
      ''I encountered an error: '' @
      format_value stuck_env (last (error_messages stuck_env (lr_messages ?lr)))"
    by blast
  then have stuck: "final_answer stuck_env ?lr = ''I encountered an error: Restaurant not found''"
    by (simp add: stuck_run_last_error format_value_def)
  note b = orchestration_loop_bounded [of chatty_env "[menu_prompt]" "()" ?lr "()"
      0 "[menu_prompt]" "()" ?reply "()" "CHR ''W''" "''hich restaurant would you like?''"
      ?lx "[menu_prompt]" ?seen "[?result]"]
  have "llm chatty_env (map api_message [menu_prompt]) () = (Inr ?reply, ())"
    by (simp add: chatty_env_def io_return_def)
  with b have "agent_loop chatty_env 0 [menu_prompt] () =
      (Inr \<lparr>lr_final_response = ''Which restaurant would you like?'',
            lr_messages = [menu_prompt] @ [assistant_msg_dict ?reply], lr_iteration = 0\<rparr>, ()) \<and>
     final_answer chatty_env \<lparr>lr_final_response = ''Which restaurant would you like?'',
            lr_messages = [menu_prompt] @ [assistant_msg_dict ?reply], lr_iteration = 0\<rparr> =
       ''Which restaurant would you like?''"
    by simp
  then have chatty: "final_answer chatty_env (projr (fst (agent_loop chatty_env 0 [menu_prompt] ())))
      = ''Which restaurant would you like?''"
    by simp
  note c = orchestration_loop_bounded [of stuck_env "[menu_prompt]" "()" ?lr "()"
      0 "[menu_prompt]" "()" ?reply "()" "CHR ''W''" "[]"
      ?lx "[menu_prompt]" ?seen "[?result]"]
  have "assistant_text ?seen" "\<not> assistant_text ?result"
    by (simp_all add: assistant_text_def)
  with c have "Some (final_answer stuck_env ?lx) = content ?seen"
    by simp
  then have seen: "final_answer stuck_env ?lx = ''Let me look that up.''"
    by simp
  note d = orchestration_loop_bounded [of stuck_env "[menu_prompt]" "()" ?lr "()"
      0 "[menu_prompt]" "()" ?reply "()" "CHR ''W''" "[]"
      ?ly "[]" menu_prompt "[]"]
  have "\<not> assistant_text menu_prompt" "\<not> assistant_text ?silent"
    "error_messages stuck_env [menu_prompt, ?silent] = []"
    by (simp_all add: assistant_text_def menu_prompt_def error_messages_def tool_error_def)
  with d have none: "final_answer stuck_env ?ly = apology"
    by simp
  from bound empty stuck chatty seen none show ?thesis
    by (intro conjI)
qed

text \<open>
  Claim C2 as stated does not hold of the error fallback. In a conversation whose
  every completion asks for the menu of an unknown restaurant, the loop stops after
  10 rounds, the last \<open>error\<close> entry of a tool result is \<open>Restaurant not found\<close>,
  and the response is that entry behind the words \<open>I encountered an error:\<close>.
\<close>

theorem exhausted_error_prefix_counterexample:
  "map_sum id lr_iteration (fst (agent_loop stuck_env 0 [menu_prompt] ())) = Inr 10 \<and>
   map_sum id (last \<circ> error_messages stuck_env \<circ> lr_messages)
     (fst (agent_loop stuck_env 0 [menu_prompt] ())) = Inr (JStr ''Restaurant not found'') \<and>
   map_sum id (final_answer stuck_env) (fst (agent_loop stuck_env 0 [menu_prompt] ())) =
     Inr ''I encountered an error: Restaurant not found''"
  by code_simp

end
